theory Spec2Isabelle
  imports Main
begin

section \<open>Python values\<close>

text \<open>
  The templates handled by \<^verbatim>\<open>conversion.py\<close> are what \<^verbatim>\<open>json.load\<close> or
  \<^verbatim>\<open>yaml.safe_load\<close> return: \<^verbatim>\<open>None\<close>, booleans, integers, strings, lists and
  dictionaries with string keys. A dictionary is an association list in insertion order
  (Python dictionaries iterate in insertion order); its keys are distinct. Strings are
  lists of ASCII characters. Floating point numbers are left out.
\<close>

datatype pyval =
    PNone
  | PBool bool
  | PInt int
  | PStr string
  | PList "pyval list"
  | PDict "(string \<times> pyval) list"

type_synonym pydict = "(string \<times> pyval) list"

text \<open>The exceptions the modelled code can raise, each with what \<^verbatim>\<open>str(e)\<close> needs.\<close>

datatype error =
    AttributeError string string  \<comment> \<open>type name, attribute name\<close>
  | TypeError string              \<comment> \<open>message\<close>
  | KeyError string               \<comment> \<open>the missing key\<close>
  | OSError string                \<comment> \<open>message\<close>
  | FileNotFoundError string      \<comment> \<open>message\<close>
  | TimeoutExpired string         \<comment> \<open>the command\<close>
  | ValueError string             \<comment> \<open>message\<close>
  | UnboundLocalError string      \<comment> \<open>the local variable\<close>
  | Exception string              \<comment> \<open>message\<close>

fun type_name :: "pyval \<Rightarrow> string" where
  "type_name PNone = ''NoneType''"
| "type_name (PBool _) = ''bool''"
| "type_name (PInt _) = ''int''"
| "type_name (PStr _) = ''str''"
| "type_name (PList _) = ''list''"
| "type_name (PDict _) = ''dict''"

subsection \<open>\<^verbatim>\<open>str\<close> and \<^verbatim>\<open>repr\<close>\<close>

definition digit_char :: "nat \<Rightarrow> char" where
  "digit_char d = (''0123456789'' ! d)"

fun str_nat :: "nat \<Rightarrow> string" where
  "str_nat n = (if n < 10 then [digit_char n] else str_nat (n div 10) @ [digit_char (n mod 10)])"

definition str_int :: "int \<Rightarrow> string" where
  "str_int i = (if i < 0 then CHR ''-'' # str_nat (nat (- i)) else str_nat (nat i))"

definition hex_char :: "nat \<Rightarrow> char" where
  "hex_char d = (''0123456789abcdef'' ! d)"

text \<open>
  \<^verbatim>\<open>repr\<close> of a string: single quotes, unless the string has a single quote and no
  double quote; the quote in use, the backslash and the characters outside the printable
  ASCII range are escaped.
\<close>

definition repr_char :: "char \<Rightarrow> char \<Rightarrow> string" where
  "repr_char q c =
     (if c = q \<or> c = CHR 0x5C then [CHR 0x5C, c]
      else if c = CHR 0x0A then [CHR 0x5C, CHR ''n'']
      else if c = CHR 0x0D then [CHR 0x5C, CHR ''r'']
      else if c = CHR 0x09 then [CHR 0x5C, CHR ''t'']
      else if (of_char c :: nat) < 32 \<or> 127 \<le> (of_char c :: nat)
        then [CHR 0x5C, CHR ''x'', hex_char ((of_char c :: nat) div 16), hex_char ((of_char c :: nat) mod 16)]
      else [c])"

definition repr_str :: "string \<Rightarrow> string" where
  "repr_str s =
     (let q = (if CHR 0x27 \<in> set s \<and> CHR 0x22 \<notin> set s then CHR 0x22 else CHR 0x27)
      in [q] @ concat (map (repr_char q) s) @ [q])"

text \<open>\<^verbatim>\<open>sep.join(parts)\<close>\<close>

fun join_str :: "string \<Rightarrow> string list \<Rightarrow> string" where
  "join_str sep [] = []"
| "join_str sep [x] = x"
| "join_str sep (x # y # ys) = x @ sep @ join_str sep (y # ys)"

fun py_repr :: "pyval \<Rightarrow> string"
and repr_list :: "pyval list \<Rightarrow> string list"
and repr_items :: "(string \<times> pyval) list \<Rightarrow> string list" where
  "py_repr PNone = ''None''"
| "py_repr (PBool b) = (if b then ''True'' else ''False'')"
| "py_repr (PInt i) = str_int i"
| "py_repr (PStr s) = repr_str s"
| "py_repr (PList xs) = ''['' @ join_str '', '' (repr_list xs) @ '']''"
| "py_repr (PDict d) = ''{'' @ join_str '', '' (repr_items d) @ ''}''"
| "repr_list [] = []"
| "repr_list (x # xs) = py_repr x # repr_list xs"
| "repr_items [] = []"
| "repr_items ((k, v) # d) = (repr_str k @ '': '' @ py_repr v) # repr_items d"

text \<open>\<^verbatim>\<open>str(v)\<close>, which is also what an f-string field \<^verbatim>\<open>{v}\<close> inserts.\<close>

definition py_str :: "pyval \<Rightarrow> string" where
  "py_str v = (case v of PStr s \<Rightarrow> s | _ \<Rightarrow> py_repr v)"

definition squote :: "string \<Rightarrow> string" where
  "squote s = [CHR 0x27] @ s @ [CHR 0x27]"

definition dquote :: "string \<Rightarrow> string" where
  "dquote s = [CHR 0x22] @ s @ [CHR 0x22]"

text \<open>\<^verbatim>\<open>str(e)\<close> of an exception (the messages of CPython 3).\<close>

fun exc_str :: "error \<Rightarrow> string" where
  "exc_str (AttributeError t a) = squote t @ '' object has no attribute '' @ squote a"
| "exc_str (TypeError m) = m"
| "exc_str (KeyError k) = repr_str k"
| "exc_str (OSError m) = m"
| "exc_str (FileNotFoundError m) = m"
| "exc_str (TimeoutExpired c) = ''Command '' @ repr_str c @ '' timed out''"
| "exc_str (ValueError m) = m"
| "exc_str (UnboundLocalError v) = ''local variable '' @ squote v @ '' referenced before assignment''"
| "exc_str (Exception m) = m"

subsection \<open>String methods\<close>

definition lower_char :: "char \<Rightarrow> char" where
  "lower_char c =
     (case map_of (zip ''ABCDEFGHIJKLMNOPQRSTUVWXYZ'' ''abcdefghijklmnopqrstuvwxyz'') c of
        None \<Rightarrow> c | Some l \<Rightarrow> l)"

definition lower :: "string \<Rightarrow> string" where
  "lower s = map lower_char s"

fun startswith :: "string \<Rightarrow> string \<Rightarrow> bool" where
  "startswith s [] = True"
| "startswith [] (p # ps) = False"
| "startswith (c # cs) (p # ps) = (c = p \<and> startswith cs ps)"

subsection \<open>Dictionaries\<close>

definition dict_get :: "pydict \<Rightarrow> string \<Rightarrow> pyval option" where
  "dict_get d k = map_of d k"

definition dict_in :: "string \<Rightarrow> pydict \<Rightarrow> bool" where
  "dict_in k d = (map_of d k \<noteq> None)"

text \<open>\<^verbatim>\<open>d[k] = v\<close>: an existing key keeps its place, a new key goes last.\<close>

fun dict_set :: "(string \<times> 'v) list \<Rightarrow> string \<Rightarrow> 'v \<Rightarrow> (string \<times> 'v) list" where
  "dict_set [] k v = [(k, v)]"
| "dict_set ((k', v') # d) k v = (if k' = k then (k, v) # d else (k', v') # dict_set d k v)"

text \<open>\<^verbatim>\<open>d.update(e)\<close>\<close>

definition dict_update :: "(string \<times> 'v) list \<Rightarrow> (string \<times> 'v) list \<Rightarrow> (string \<times> 'v) list" where
  "dict_update d e = fold (\<lambda>(k, v) acc. dict_set acc k v) e d"

text \<open>A value used where Python hashes it: lists and dictionaries are unhashable.\<close>

definition unhashable :: "pyval \<Rightarrow> error option" where
  "unhashable v =
     (case v of
        PList _ \<Rightarrow> Some (TypeError (''unhashable type: '' @ squote ''list''))
      | PDict _ \<Rightarrow> Some (TypeError (''unhashable type: '' @ squote ''dict''))
      | _ \<Rightarrow> None)"

text \<open>\<^verbatim>\<open>len(v)\<close>\<close>

definition py_len :: "pyval \<Rightarrow> error + nat" where
  "py_len v =
     (case v of
        PStr s \<Rightarrow> Inr (length s)
      | PList xs \<Rightarrow> Inr (length xs)
      | PDict d \<Rightarrow> Inr (length d)
      | _ \<Rightarrow> Inl (TypeError (''object of type '' @ squote (type_name v) @ '' has no len()'')))"

text \<open>
  What iterating over (or unpacking) a value yields: the elements of a list, the
  one-character strings of a string, the keys of a dictionary.
\<close>

definition py_iter :: "pyval \<Rightarrow> error + pyval list" where
  "py_iter v =
     (case v of
        PStr s \<Rightarrow> Inr (map (\<lambda>c. PStr [c]) s)
      | PList xs \<Rightarrow> Inr xs
      | PDict d \<Rightarrow> Inr (map (\<lambda>(k, _). PStr k) d)
      | _ \<Rightarrow> Inl (TypeError (squote (type_name v) @ '' object is not iterable'')))"

text \<open>\<^verbatim>\<open>v.get(k, default)\<close>, a method of dictionaries only.\<close>

definition py_get :: "pyval \<Rightarrow> string \<Rightarrow> pyval \<Rightarrow> error + pyval" where
  "py_get v k dflt =
     (case v of
        PDict d \<Rightarrow> Inr (case map_of d k of None \<Rightarrow> dflt | Some x \<Rightarrow> x)
      | _ \<Rightarrow> Inl (AttributeError (type_name v) ''get''))"

text \<open>\<^verbatim>\<open>v[k]\<close> for a string \<^verbatim>\<open>k\<close>.\<close>

definition py_getitem :: "pyval \<Rightarrow> string \<Rightarrow> error + pyval" where
  "py_getitem v k =
     (case v of
        PDict d \<Rightarrow> (case map_of d k of None \<Rightarrow> Inl (KeyError k) | Some x \<Rightarrow> Inr x)
      | PList _ \<Rightarrow> Inl (TypeError ''list indices must be integers or slices, not str'')
      | PStr _ \<Rightarrow> Inl (TypeError ''string indices must be integers'')
      | _ \<Rightarrow> Inl (TypeError (squote (type_name v) @ '' object is not subscriptable'')))"

text \<open>Truth value of a Python value (\<^verbatim>\<open>if not v\<close>).\<close>

definition truthy :: "pyval \<Rightarrow> bool" where
  "truthy v =
     (case v of
        PNone \<Rightarrow> False
      | PBool b \<Rightarrow> b
      | PInt i \<Rightarrow> i \<noteq> 0
      | PStr s \<Rightarrow> s \<noteq> []
      | PList xs \<Rightarrow> xs \<noteq> []
      | PDict d \<Rightarrow> d \<noteq> [])"

section \<open>Results, exceptions and the log\<close>

text \<open>
  A computation either returns a value or raises; either way it leaves the records it
  has written to the module's logger.
\<close>

datatype level = DEBUG | INFO | WARNING | ERROR

type_synonym logrec = "level \<times> string"

type_synonym 'a res = "(error + 'a) \<times> logrec list"

definition ret :: "'a \<Rightarrow> 'a res" where
  "ret x = (Inr x, [])"

definition raise :: "error \<Rightarrow> 'a res" where
  "raise e = (Inl e, [])"

definition lift :: "error + 'a \<Rightarrow> 'a res" where
  "lift r = (r, [])"

definition logger :: "level \<Rightarrow> string \<Rightarrow> unit res" where
  "logger l m = (Inr (), [(l, m)])"

definition rbind :: "'a res \<Rightarrow> ('a \<Rightarrow> 'b res) \<Rightarrow> 'b res" where
  "rbind m f =
     (case m of
        (Inl e, l) \<Rightarrow> (Inl e, l)
      | (Inr x, l) \<Rightarrow> (case f x of (r, l') \<Rightarrow> (r, l @ l')))"

text \<open>
  \<^verbatim>\<open>try: ... except (KeyError, TypeError): pass\<close>: a caught exception ends the block
  with no value; any other exception goes on.
\<close>

definition except_KeyError_TypeError :: "'a option res \<Rightarrow> 'a option res" where
  "except_KeyError_TypeError m =
     (case m of
        (Inl (KeyError _), l) \<Rightarrow> (Inr None, l)
      | (Inl (TypeError _), l) \<Rightarrow> (Inr None, l)
      | _ \<Rightarrow> m)"

section \<open>ResourceMapper\<close>

definition RESOURCE_TYPE_MAPPING :: "(string \<times> string) list" where
  "RESOURCE_TYPE_MAPPING =
     [(''AWS::EC2::Instance'', ''aws_instance''),
      (''AWS::EC2::LaunchTemplate'', ''aws_launch_template''),
      (''AWS::EC2::LaunchConfiguration'', ''aws_launch_configuration''),
      (''AWS::AutoScaling::AutoScalingGroup'', ''aws_autoscaling_group''),
      (''AWS::AutoScaling::LaunchConfiguration'', ''aws_launch_configuration''),
      (''AWS::Lambda::Function'', ''aws_lambda_function''),
      (''AWS::Lambda::Permission'', ''aws_lambda_permission''),
      (''AWS::Lambda::Alias'', ''aws_lambda_alias''),
      (''AWS::Lambda::Version'', ''aws_lambda_version''),
      (''AWS::ECS::Cluster'', ''aws_ecs_cluster''),
      (''AWS::ECS::Service'', ''aws_ecs_service''),
      (''AWS::ECS::TaskDefinition'', ''aws_ecs_task_definition''),
      (''AWS::EC2::VPC'', ''aws_vpc''),
      (''AWS::EC2::Subnet'', ''aws_subnet''),
      (''AWS::EC2::InternetGateway'', ''aws_internet_gateway''),
      (''AWS::EC2::VPCGatewayAttachment'', ''aws_internet_gateway_attachment''),
      (''AWS::EC2::RouteTable'', ''aws_route_table''),
      (''AWS::EC2::Route'', ''aws_route''),
      (''AWS::EC2::SubnetRouteTableAssociation'', ''aws_route_table_association''),
      (''AWS::EC2::SecurityGroup'', ''aws_security_group''),
      (''AWS::EC2::SecurityGroupIngress'', ''aws_security_group_rule''),
      (''AWS::EC2::SecurityGroupEgress'', ''aws_security_group_rule''),
      (''AWS::EC2::NatGateway'', ''aws_nat_gateway''),
      (''AWS::EC2::EIP'', ''aws_eip''),
      (''AWS::EC2::EIPAssociation'', ''aws_eip_association''),
      (''AWS::EC2::NetworkInterface'', ''aws_network_interface''),
      (''AWS::EC2::NetworkInterfaceAttachment'', ''aws_network_interface_attachment''),
      (''AWS::ElasticLoadBalancing::LoadBalancer'', ''aws_elb''),
      (''AWS::ElasticLoadBalancingV2::LoadBalancer'', ''aws_lb''),
      (''AWS::ElasticLoadBalancingV2::TargetGroup'', ''aws_lb_target_group''),
      (''AWS::ElasticLoadBalancingV2::Listener'', ''aws_lb_listener''),
      (''AWS::ElasticLoadBalancingV2::ListenerRule'', ''aws_lb_listener_rule''),
      (''AWS::S3::Bucket'', ''aws_s3_bucket''),
      (''AWS::S3::BucketPolicy'', ''aws_s3_bucket_policy''),
      (''AWS::S3::BucketNotification'', ''aws_s3_bucket_notification''),
      (''AWS::EBS::Volume'', ''aws_ebs_volume''),
      (''AWS::EC2::VolumeAttachment'', ''aws_volume_attachment''),
      (''AWS::EFS::FileSystem'', ''aws_efs_file_system''),
      (''AWS::EFS::MountTarget'', ''aws_efs_mount_target''),
      (''AWS::RDS::DBInstance'', ''aws_db_instance''),
      (''AWS::RDS::DBCluster'', ''aws_rds_cluster''),
      (''AWS::RDS::DBSubnetGroup'', ''aws_db_subnet_group''),
      (''AWS::RDS::DBParameterGroup'', ''aws_db_parameter_group''),
      (''AWS::RDS::DBClusterParameterGroup'', ''aws_rds_cluster_parameter_group''),
      (''AWS::DynamoDB::Table'', ''aws_dynamodb_table''),
      (''AWS::ElastiCache::CacheCluster'', ''aws_elasticache_cluster''),
      (''AWS::ElastiCache::ReplicationGroup'', ''aws_elasticache_replication_group''),
      (''AWS::ElastiCache::SubnetGroup'', ''aws_elasticache_subnet_group''),
      (''AWS::IAM::Role'', ''aws_iam_role''),
      (''AWS::IAM::Policy'', ''aws_iam_policy''),
      (''AWS::IAM::User'', ''aws_iam_user''),
      (''AWS::IAM::Group'', ''aws_iam_group''),
      (''AWS::IAM::InstanceProfile'', ''aws_iam_instance_profile''),
      (''AWS::IAM::RolePolicyAttachment'', ''aws_iam_role_policy_attachment''),
      (''AWS::IAM::UserPolicyAttachment'', ''aws_iam_user_policy_attachment''),
      (''AWS::IAM::GroupPolicyAttachment'', ''aws_iam_group_policy_attachment''),
      (''AWS::Route53::HostedZone'', ''aws_route53_zone''),
      (''AWS::Route53::RecordSet'', ''aws_route53_record''),
      (''AWS::CloudFront::Distribution'', ''aws_cloudfront_distribution''),
      (''AWS::CloudFront::OriginAccessIdentity'', ''aws_cloudfront_origin_access_identity''),
      (''AWS::ApiGateway::RestApi'', ''aws_api_gateway_rest_api''),
      (''AWS::ApiGateway::Resource'', ''aws_api_gateway_resource''),
      (''AWS::ApiGateway::Method'', ''aws_api_gateway_method''),
      (''AWS::ApiGateway::Deployment'', ''aws_api_gateway_deployment''),
      (''AWS::ApiGateway::Stage'', ''aws_api_gateway_stage''),
      (''AWS::SNS::Topic'', ''aws_sns_topic''),
      (''AWS::SNS::Subscription'', ''aws_sns_topic_subscription''),
      (''AWS::SQS::Queue'', ''aws_sqs_queue''),
      (''AWS::CloudWatch::Alarm'', ''aws_cloudwatch_metric_alarm''),
      (''AWS::CloudWatch::Dashboard'', ''aws_cloudwatch_dashboard''),
      (''AWS::Logs::LogGroup'', ''aws_cloudwatch_log_group''),
      (''AWS::Logs::LogStream'', ''aws_cloudwatch_log_stream''),
      (''AWS::KMS::Key'', ''aws_kms_key''),
      (''AWS::KMS::Alias'', ''aws_kms_alias''),
      (''AWS::SecretsManager::Secret'', ''aws_secretsmanager_secret''),
      (''AWS::SecretsManager::SecretVersion'', ''aws_secretsmanager_secret_version''),
      (''AWS::CloudFormation::Stack'', ''terraform_module'')]"

definition PROPERTY_MAPPINGS :: "(string \<times> (string \<times> string) list) list" where
  "PROPERTY_MAPPINGS =
     [(''aws_instance'',
       [(''ImageId'', ''ami''),
        (''InstanceType'', ''instance_type''),
        (''KeyName'', ''key_name''),
        (''SecurityGroups'', ''security_groups''),
        (''SecurityGroupIds'', ''vpc_security_group_ids''),
        (''SubnetId'', ''subnet_id''),
        (''UserData'', ''user_data''),
        (''IamInstanceProfile'', ''iam_instance_profile''),
        (''Tags'', ''tags''),
        (''BlockDeviceMappings'', ''ebs_block_device''),
        (''Monitoring'', ''monitoring''),
        (''DisableApiTermination'', ''disable_api_termination''),
        (''EbsOptimized'', ''ebs_optimized''),
        (''SourceDestCheck'', ''source_dest_check'')]),
      (''aws_vpc'',
       [(''CidrBlock'', ''cidr_block''),
        (''EnableDnsHostnames'', ''enable_dns_hostnames''),
        (''EnableDnsSupport'', ''enable_dns_support''),
        (''InstanceTenancy'', ''instance_tenancy''),
        (''Tags'', ''tags'')]),
      (''aws_subnet'',
       [(''VpcId'', ''vpc_id''),
        (''CidrBlock'', ''cidr_block''),
        (''AvailabilityZone'', ''availability_zone''),
        (''MapPublicIpOnLaunch'', ''map_public_ip_on_launch''),
        (''Tags'', ''tags'')]),
      (''aws_security_group'',
       [(''GroupDescription'', ''description''),
        (''GroupName'', ''name''),
        (''VpcId'', ''vpc_id''),
        (''SecurityGroupIngress'', ''ingress''),
        (''SecurityGroupEgress'', ''egress''),
        (''Tags'', ''tags'')]),
      (''aws_s3_bucket'',
       [(''BucketName'', ''bucket''),
        (''AccessControl'', ''acl''),
        (''BucketEncryption'', ''server_side_encryption_configuration''),
        (''PublicAccessBlockConfiguration'', ''public_access_block''),
        (''VersioningConfiguration'', ''versioning''),
        (''Tags'', ''tags'')]),
      (''aws_db_instance'',
       [(''DBInstanceIdentifier'', ''identifier''),
        (''DBInstanceClass'', ''instance_class''),
        (''Engine'', ''engine''),
        (''EngineVersion'', ''engine_version''),
        (''AllocatedStorage'', ''allocated_storage''),
        (''StorageType'', ''storage_type''),
        (''StorageEncrypted'', ''storage_encrypted''),
        (''KmsKeyId'', ''kms_key_id''),
        (''DBName'', ''db_name''),
        (''MasterUsername'', ''username''),
        (''MasterUserPassword'', ''password''),
        (''VPCSecurityGroups'', ''vpc_security_group_ids''),
        (''DBSubnetGroupName'', ''db_subnet_group_name''),
        (''ParameterGroupName'', ''parameter_group_name''),
        (''BackupRetentionPeriod'', ''backup_retention_period''),
        (''PreferredBackupWindow'', ''backup_window''),
        (''PreferredMaintenanceWindow'', ''maintenance_window''),
        (''MultiAZ'', ''multi_az''),
        (''PubliclyAccessible'', ''publicly_accessible''),
        (''Tags'', ''tags'')])]"

text \<open>
  \<^verbatim>\<open>RESOURCE_TYPE_MAPPING.get(cf_type)\<close>: the key is hashed, so a list or a dictionary
  raises; a key that is no string is in no entry.
\<close>

definition get_terraform_type :: "pyval \<Rightarrow> error + string option" where
  "get_terraform_type cf_type =
     (case unhashable cf_type of
        Some e \<Rightarrow> Inl e
      | None \<Rightarrow>
          (case cf_type of
             PStr t \<Rightarrow> Inr (map_of RESOURCE_TYPE_MAPPING t)
           | _ \<Rightarrow> Inr None))"

section \<open>IntrinsicFunctionHandler\<close>

text \<open>
  The handler holds the template's \<^verbatim>\<open>Parameters\<close> and \<^verbatim>\<open>Mappings\<close> sections. The
  \<^verbatim>\<open>context\<close> argument is a dictionary of sections; the handler reads only
  \<^verbatim>\<open>context.get('resources', {})\<close>.
\<close>

record handler =
  parameters :: pydict
  mappings :: pydict

type_synonym "context" = "(string \<times> pydict) list"

definition context_resources :: "context \<Rightarrow> pydict" where
  "context_resources context = (case map_of context ''resources'' of None \<Rightarrow> [] | Some r \<Rightarrow> r)"

subsection \<open>\<^verbatim>\<open>_handle_ref\<close>\<close>

definition ref_pseudo_params :: "(string \<times> string) list" where
  "ref_pseudo_params =
     [(''AWS::Region'', ''data.aws_region.current.name''),
      (''AWS::AccountId'', ''data.aws_caller_identity.current.account_id''),
      (''AWS::StackName'', ''var.stack_name''),
      (''AWS::StackId'', ''var.stack_id''),
      (''AWS::Partition'', ''data.aws_partition.current.partition'')]"

text \<open>
  The branch for a name declared in \<^verbatim>\<open>context['resources']\<close>: the reference it
  returns, or \<open>None\<close> when it falls through (the type has no Terraform mapping).
\<close>

definition ref_resource :: "string \<Rightarrow> pyval \<Rightarrow> error + string option" where
  "ref_resource resource_name resource_info =
     (case py_get resource_info ''Type'' (PStr []) of
        Inl e \<Rightarrow> Inl e
      | Inr resource_type \<Rightarrow>
          if resource_type = PStr ''AWS::EC2::Instance''
            then Inr (Some (''aws_instance.'' @ lower resource_name @ ''.id''))
          else if resource_type = PStr ''AWS::EC2::VPC''
            then Inr (Some (''aws_vpc.'' @ lower resource_name @ ''.id''))
          else if resource_type = PStr ''AWS::EC2::Subnet''
            then Inr (Some (''aws_subnet.'' @ lower resource_name @ ''.id''))
          else if resource_type = PStr ''AWS::EC2::SecurityGroup''
            then Inr (Some (''aws_security_group.'' @ lower resource_name @ ''.id''))
          else if resource_type = PStr ''AWS::S3::Bucket''
            then Inr (Some (''aws_s3_bucket.'' @ lower resource_name @ ''.id''))
          else
            (case get_terraform_type resource_type of
               Inl e \<Rightarrow> Inl e
             | Inr None \<Rightarrow> Inr None
             | Inr (Some terraform_type) \<Rightarrow>
                 Inr (Some (terraform_type @ ''.'' @ lower resource_name @ ''.id''))))"

definition handle_ref :: "handler \<Rightarrow> context \<Rightarrow> pyval \<Rightarrow> error + string" where
  "handle_ref h context resource_name =
     (case unhashable resource_name of
        Some e \<Rightarrow> Inl e
      | None \<Rightarrow>
          (case resource_name of
             PStr name \<Rightarrow>
               if dict_in name (parameters h) then Inr (''var.'' @ lower name)
               else
                 (case (case map_of (context_resources context) name of
                          None \<Rightarrow> Inr None
                        | Some resource_info \<Rightarrow> ref_resource name resource_info) of
                    Inl e \<Rightarrow> Inl e
                  | Inr (Some r) \<Rightarrow> Inr r
                  | Inr None \<Rightarrow>
                      (case map_of ref_pseudo_params name of
                         Some p \<Rightarrow> Inr p
                       | None \<Rightarrow> Inr (''# TODO: Resolve reference to '' @ name)))
           | _ \<Rightarrow> Inr (''# TODO: Resolve reference to '' @ py_str resource_name)))"

subsection \<open>\<^verbatim>\<open>_handle_get_att\<close>\<close>

definition attribute_mappings :: "(string \<times> (string \<times> string) list) list" where
  "attribute_mappings =
     [(''AWS::EC2::Instance'',
       [(''PrivateIp'', ''private_ip''),
        (''PublicIp'', ''public_ip''),
        (''PrivateDnsName'', ''private_dns''),
        (''PublicDnsName'', ''public_dns''),
        (''AvailabilityZone'', ''availability_zone'')]),
      (''AWS::EC2::VPC'',
       [(''CidrBlock'', ''cidr_block''),
        (''DefaultNetworkAcl'', ''default_network_acl_id''),
        (''DefaultSecurityGroup'', ''default_security_group_id'')]),
      (''AWS::S3::Bucket'',
       [(''Arn'', ''arn''),
        (''DomainName'', ''bucket_domain_name''),
        (''RegionalDomainName'', ''bucket_regional_domain_name'')]),
      (''AWS::RDS::DBInstance'',
       [(''Endpoint.Address'', ''endpoint''),
        (''Endpoint.Port'', ''port'')])]"

text \<open>
  The branch for a resource name declared in \<^verbatim>\<open>context['resources']\<close>; \<open>None\<close> when
  it falls through to the marker.
\<close>

definition get_att_resource :: "string \<Rightarrow> pyval \<Rightarrow> pyval \<Rightarrow> error + string option" where
  "get_att_resource resource_name resource_info attribute =
     (case py_get resource_info ''Type'' (PStr []) of
        Inl e \<Rightarrow> Inl e
      | Inr resource_type \<Rightarrow>
          (case get_terraform_type resource_type of
             Inl e \<Rightarrow> Inl e
           | Inr None \<Rightarrow> Inr None
           | Inr (Some terraform_type) \<Rightarrow>
               (case resource_type of
                  PStr rt \<Rightarrow>
                    (case map_of attribute_mappings rt of
                       None \<Rightarrow> Inr None
                     | Some attrs \<Rightarrow>
                         (case attribute of
                            PStr a \<Rightarrow>
                              Inr (Some (terraform_type @ ''.'' @ lower resource_name @ ''.'' @
                                (case map_of attrs a of None \<Rightarrow> lower a | Some t \<Rightarrow> t)))
                          | _ \<Rightarrow> Inl (AttributeError (type_name attribute) ''lower'')))
                | _ \<Rightarrow> Inr None)))"

definition handle_get_att :: "handler \<Rightarrow> context \<Rightarrow> pyval \<Rightarrow> error + string" where
  "handle_get_att h context args =
     (case py_len args of
        Inl e \<Rightarrow> Inl e
      | Inr n \<Rightarrow>
          (case py_iter args of
             Inr [resource_name, attribute] \<Rightarrow>
               (case unhashable resource_name of
                  Some e \<Rightarrow> Inl e
                | None \<Rightarrow>
                    (case (case resource_name of
                             PStr name \<Rightarrow>
                               (case map_of (context_resources context) name of
                                  None \<Rightarrow> Inr None
                                | Some resource_info \<Rightarrow>
                                    get_att_resource name resource_info attribute)
                           | _ \<Rightarrow> Inr None) of
                       Inl e \<Rightarrow> Inl e
                     | Inr (Some r) \<Rightarrow> Inr r
                     | Inr None \<Rightarrow>
                         Inr (''# TODO: GetAtt '' @ py_str resource_name @ ''.'' @ py_str attribute)))
           | _ \<Rightarrow> Inr (''# TODO: Invalid GetAtt arguments: '' @ py_str args)))"

subsection \<open>\<^verbatim>\<open>_handle_sub\<close>: the placeholders\<close>

definition sub_pseudo_params :: "(string \<times> string) list" where
  "sub_pseudo_params =
     [(''AWS::Region'', ''data.aws_region.current.name''),
      (''AWS::AccountId'', ''data.aws_caller_identity.current.account_id''),
      (''AWS::StackName'', ''var.stack_name'')]"

text \<open>The inner function \<^verbatim>\<open>replace_var\<close>, given the group \<^verbatim>\<open>match.group(1)\<close>.\<close>

definition replace_var :: "handler \<Rightarrow> context \<Rightarrow> pydict \<Rightarrow> string \<Rightarrow> error + string" where
  "replace_var h context processed_vars var_name =
     (case map_of processed_vars var_name of
        Some v \<Rightarrow> Inr (''${'' @ py_str v @ ''}'')
      | None \<Rightarrow>
          (case (if startswith var_name ''AWS::'' then map_of sub_pseudo_params var_name else None) of
             Some p \<Rightarrow> Inr (''${'' @ p @ ''}'')
           | None \<Rightarrow>
               if dict_in var_name (parameters h) then Inr (''${var.'' @ lower var_name @ ''}'')
               else if dict_in var_name (context_resources context) then
                 (case handle_ref h context (PStr var_name) of
                    Inl e \<Rightarrow> Inl e
                  | Inr r \<Rightarrow> Inr (''${'' @ r @ ''}''))
               else Inr (''${'' @ var_name @ ''}'')))"

text \<open>
  \<^verbatim>\<open>re.sub(r'\$\{([^}]+)\}', repl, s)\<close>: left to right, a match starts at \<^verbatim>\<open>${\<close>
  followed by at least one character other than \<^verbatim>\<open>}\<close> and then a \<^verbatim>\<open>}\<close>; the group is
  everything up to that first \<^verbatim>\<open>}\<close>. The scan goes on after the match. An exception of
  \<^verbatim>\<open>repl\<close> ends the substitution.
\<close>

function re_sub :: "(string \<Rightarrow> error + string) \<Rightarrow> string \<Rightarrow> error + string" where
  "re_sub repl [] = Inr []"
| "re_sub repl (c # cs) =
     (if c = CHR ''$'' \<and> cs \<noteq> [] \<and> hd cs = CHR ''{''
         \<and> takeWhile (\<lambda>x. x \<noteq> CHR ''}'') (tl cs) \<noteq> []
         \<and> dropWhile (\<lambda>x. x \<noteq> CHR ''}'') (tl cs) \<noteq> []
      then
        (case repl (takeWhile (\<lambda>x. x \<noteq> CHR ''}'') (tl cs)) of
           Inl e \<Rightarrow> Inl e
         | Inr r \<Rightarrow>
             (case re_sub repl (tl (dropWhile (\<lambda>x. x \<noteq> CHR ''}'') (tl cs))) of
                Inl e \<Rightarrow> Inl e
              | Inr rest \<Rightarrow> Inr (r @ rest)))
      else
        (case re_sub repl cs of
           Inl e \<Rightarrow> Inl e
         | Inr rest \<Rightarrow> Inr (c # rest)))"
  by pat_completeness auto
termination
proof (relation "measure (\<lambda>(repl, s). length s)", goal_cases)
  case 1
  show ?case by simp
next
  case (2 repl c cs x2)
  have "length (dropWhile (\<lambda>x. x \<noteq> CHR ''}'') (tl cs)) \<le> length (tl cs)"
    by (rule length_dropWhile_le)
  then show ?case by simp
next
  case (3 repl c cs)
  show ?case by simp
qed

text \<open>The substitution and the quoting that end \<^verbatim>\<open>_handle_sub\<close>.\<close>

definition sub_template :: "handler \<Rightarrow> context \<Rightarrow> pydict \<Rightarrow> pyval \<Rightarrow> error + string" where
  "sub_template h context processed_vars template_string =
     (case template_string of
        PStr t \<Rightarrow>
          (case re_sub (replace_var h context processed_vars) t of
             Inl e \<Rightarrow> Inl e
           | Inr result \<Rightarrow> Inr (dquote result))
      | _ \<Rightarrow> Inl (TypeError ''expected string or bytes-like object''))"

subsection \<open>The strings the handlers build\<close>

text \<open>\<^verbatim>\<open>name in d\<close> for a hashable \<^verbatim>\<open>name\<close>: only a string can be a key.\<close>

definition py_in :: "pyval \<Rightarrow> pydict \<Rightarrow> bool" where
  "py_in name d = (case name of PStr n \<Rightarrow> dict_in n d | _ \<Rightarrow> False)"

text \<open>\<^verbatim>\<open>a, b = args\<close> after \<^verbatim>\<open>len(args)\<close>: the sequence that is unpacked.\<close>

definition py_unpack :: "pyval \<Rightarrow> error + pyval list" where
  "py_unpack args = (case py_len args of Inl e \<Rightarrow> Inl e | Inr _ \<Rightarrow> py_iter args)"

definition invalid_arguments :: "string \<Rightarrow> pyval \<Rightarrow> string" where
  "invalid_arguments fn args = ''# TODO: Invalid '' @ fn @ '' arguments: '' @ py_str args"

definition join_result :: "pyval \<Rightarrow> pyval list \<Rightarrow> string" where
  "join_result delimiter processed =
     ''join('' @ dquote (py_str delimiter) @ '', ['' @
       join_str '', '' (map (\<lambda>pv. case pv of PStr s \<Rightarrow> dquote s | _ \<Rightarrow> py_str pv) processed) @ ''])''"

definition select_result :: "pyval \<Rightarrow> pyval \<Rightarrow> string" where
  "select_result index processed_array =
     ''element('' @ py_str processed_array @ '', '' @ py_str index @ '')''"

definition split_result :: "pyval \<Rightarrow> pyval \<Rightarrow> string" where
  "split_result delimiter processed_string =
     ''split('' @ dquote (py_str delimiter) @ '', '' @ py_str processed_string @ '')''"

definition if_result :: "pyval \<Rightarrow> pyval \<Rightarrow> pyval \<Rightarrow> error + string" where
  "if_result condition_name processed_true processed_false =
     (case condition_name of
        PStr cn \<Rightarrow>
          Inr (''var.'' @ lower cn @ '' - '' @ py_str processed_true @ '' : '' @ py_str processed_false)
      | _ \<Rightarrow> Inl (AttributeError (type_name condition_name) ''lower''))"

text \<open>
  The static branch of \<^verbatim>\<open>_handle_find_in_map\<close>, for a map name that is in
  \<^verbatim>\<open>self.mappings\<close>: with two string keys it reads
  \<^verbatim>\<open>self.mappings[map_name][top][second]\<close> and returns the value in double quotes;
  otherwise it returns nothing.
\<close>

definition find_in_map_static :: "handler \<Rightarrow> pyval \<Rightarrow> pyval \<Rightarrow> pyval \<Rightarrow> error + string option" where
  "find_in_map_static h map_name processed_top_key processed_second_key =
     (case (map_name, processed_top_key, processed_second_key) of
        (PStr m, PStr t, PStr s) \<Rightarrow>
          (case py_getitem (PDict (mappings h)) m of
             Inl e \<Rightarrow> Inl e
           | Inr table \<Rightarrow>
               (case py_getitem table t of
                  Inl e \<Rightarrow> Inl e
                | Inr row \<Rightarrow>
                    (case py_getitem row s of
                       Inl e \<Rightarrow> Inl e
                     | Inr v \<Rightarrow> Inr (Some (dquote (py_str v))))))
      | _ \<Rightarrow> Inr None)"

text \<open>The local value lookup that \<^verbatim>\<open>_handle_find_in_map\<close> falls back to.\<close>

definition find_in_map_local :: "pyval \<Rightarrow> pyval \<Rightarrow> pyval \<Rightarrow> error + string" where
  "find_in_map_local map_name processed_top_key processed_second_key =
     (case map_name of
        PStr m \<Rightarrow>
          Inr (''local.'' @ lower m @ ''['' @ py_str processed_top_key @ '']['' @
            py_str processed_second_key @ '']'')
      | _ \<Rightarrow> Inl (AttributeError (type_name map_name) ''lower''))"

subsection \<open>\<^verbatim>\<open>process_value\<close> and the recursive handlers\<close>

text \<open>
  Where a handler is given a string or a dictionary in place of the list of arguments,
  unpacking yields strings (characters or keys), and \<^verbatim>\<open>process_value\<close> returns a
  string as it is: those branches process nothing.
\<close>

function (sequential) process_value :: "handler \<Rightarrow> context \<Rightarrow> pyval \<Rightarrow> pyval res"
and process_list :: "handler \<Rightarrow> context \<Rightarrow> pyval list \<Rightarrow> pyval list res"
and process_items :: "handler \<Rightarrow> context \<Rightarrow> pydict \<Rightarrow> pydict res"
and handle_intrinsic_function :: "handler \<Rightarrow> context \<Rightarrow> string \<Rightarrow> pyval \<Rightarrow> string res"
and handle_join :: "handler \<Rightarrow> context \<Rightarrow> pyval \<Rightarrow> string res"
and handle_sub :: "handler \<Rightarrow> context \<Rightarrow> pyval \<Rightarrow> string res"
and handle_select :: "handler \<Rightarrow> context \<Rightarrow> pyval \<Rightarrow> string res"
and handle_split :: "handler \<Rightarrow> context \<Rightarrow> pyval \<Rightarrow> string res"
and handle_base64 :: "handler \<Rightarrow> context \<Rightarrow> pyval \<Rightarrow> string res"
and handle_get_azs :: "handler \<Rightarrow> context \<Rightarrow> pyval \<Rightarrow> string res"
and handle_find_in_map :: "handler \<Rightarrow> context \<Rightarrow> pyval \<Rightarrow> string res"
and handle_if :: "handler \<Rightarrow> context \<Rightarrow> pyval \<Rightarrow> string res"
where
  "process_value h context v =
     (case v of
        PDict d \<Rightarrow>
          (case d of
             [(func_name, func_args)] \<Rightarrow>
               if startswith func_name ''Fn::'' \<or> func_name = ''Ref''
               then rbind (handle_intrinsic_function h context func_name func_args) (\<lambda>s. ret (PStr s))
               else rbind (process_items h context d) (\<lambda>d'. ret (PDict d'))
           | _ \<Rightarrow> rbind (process_items h context d) (\<lambda>d'. ret (PDict d')))
      | PList xs \<Rightarrow> rbind (process_list h context xs) (\<lambda>ys. ret (PList ys))
      | _ \<Rightarrow> ret v)"
| "process_list h context [] = ret []"
| "process_list h context (x # xs) =
     rbind (process_value h context x) (\<lambda>y.
     rbind (process_list h context xs) (\<lambda>ys. ret (y # ys)))"
| "process_items h context [] = ret []"
| "process_items h context ((k, x) # d) =
     rbind (process_value h context x) (\<lambda>y.
     rbind (process_items h context d) (\<lambda>d'. ret ((k, y) # d')))"
| "handle_intrinsic_function h context func_name func_args =
     (if func_name = ''Ref'' then lift (handle_ref h context func_args)
      else if func_name = ''Fn::GetAtt'' then lift (handle_get_att h context func_args)
      else if func_name = ''Fn::Join'' then handle_join h context func_args
      else if func_name = ''Fn::Sub'' then handle_sub h context func_args
      else if func_name = ''Fn::Select'' then handle_select h context func_args
      else if func_name = ''Fn::Split'' then handle_split h context func_args
      else if func_name = ''Fn::Base64'' then handle_base64 h context func_args
      else if func_name = ''Fn::GetAZs'' then handle_get_azs h context func_args
      else if func_name = ''Fn::FindInMap'' then handle_find_in_map h context func_args
      else if func_name = ''Fn::If'' then handle_if h context func_args
      else
        rbind (logger WARNING (''Unsupported intrinsic function: '' @ func_name)) (\<lambda>_.
        ret (''# TODO: Convert '' @ func_name @ ''('' @ py_str func_args @ '')'')))"
| "handle_join h context args =
     (case args of
        PList xs \<Rightarrow>
          (case xs of
             [delimiter, values] \<Rightarrow>
               (case values of
                  PList vs \<Rightarrow>
                    rbind (process_list h context vs) (\<lambda>processed_values.
                    ret (join_result delimiter processed_values))
                | _ \<Rightarrow>
                    rbind (lift (py_iter values)) (\<lambda>processed_values.
                    ret (join_result delimiter processed_values)))
           | _ \<Rightarrow> ret (invalid_arguments ''Join'' args))
      | _ \<Rightarrow>
          rbind (lift (py_unpack args)) (\<lambda>xs.
            case xs of
              [delimiter, values] \<Rightarrow>
                rbind (lift (py_iter values)) (\<lambda>processed_values.
                ret (join_result delimiter processed_values))
            | _ \<Rightarrow> ret (invalid_arguments ''Join'' args)))"
| "handle_sub h context args =
     (case args of
        PStr template_string \<Rightarrow> lift (sub_template h context [] args)
      | PList xs \<Rightarrow>
          (case xs of
             [template_string, variables] \<Rightarrow>
               (case variables of
                  PDict vars \<Rightarrow>
                    rbind (process_items h context vars) (\<lambda>processed_vars.
                    lift (sub_template h context processed_vars template_string))
                | _ \<Rightarrow> raise (AttributeError (type_name variables) ''items''))
           | _ \<Rightarrow> ret (invalid_arguments ''Sub'' args))
      | _ \<Rightarrow> ret (invalid_arguments ''Sub'' args))"
| "handle_select h context args =
     (case args of
        PList xs \<Rightarrow>
          (case xs of
             [index, array] \<Rightarrow>
               rbind (process_value h context array) (\<lambda>processed_array.
               ret (select_result index processed_array))
           | _ \<Rightarrow> ret (invalid_arguments ''Select'' args))
      | _ \<Rightarrow>
          rbind (lift (py_unpack args)) (\<lambda>xs.
            case xs of
              [index, array] \<Rightarrow> ret (select_result index array)
            | _ \<Rightarrow> ret (invalid_arguments ''Select'' args)))"
| "handle_split h context args =
     (case args of
        PList xs \<Rightarrow>
          (case xs of
             [delimiter, string] \<Rightarrow>
               rbind (process_value h context string) (\<lambda>processed_string.
               ret (split_result delimiter processed_string))
           | _ \<Rightarrow> ret (invalid_arguments ''Split'' args))
      | _ \<Rightarrow>
          rbind (lift (py_unpack args)) (\<lambda>xs.
            case xs of
              [delimiter, string] \<Rightarrow> ret (split_result delimiter string)
            | _ \<Rightarrow> ret (invalid_arguments ''Split'' args)))"
| "handle_base64 h context v =
     rbind (process_value h context v) (\<lambda>processed_value.
     ret (''base64encode('' @ py_str processed_value @ '')''))"
| "handle_get_azs h context region =
     (if region = PStr [] then ret ''data.aws_availability_zones.available.names''
      else
        rbind (process_value h context region) (\<lambda>processed_region.
        ret (''# TODO: GetAZs for specific region '' @ py_str processed_region)))"
| "handle_find_in_map h context args =
     (case args of
        PList xs \<Rightarrow>
          (case xs of
             [map_name, top_level_key, second_level_key] \<Rightarrow>
               (case unhashable map_name of
                  Some e \<Rightarrow> raise e
                | None \<Rightarrow>
                    rbind
                      (if py_in map_name (mappings h) then
                         except_KeyError_TypeError
                           (rbind (process_value h context top_level_key) (\<lambda>processed_top_key.
                            rbind (process_value h context second_level_key) (\<lambda>processed_second_key.
                            lift (find_in_map_static h map_name processed_top_key processed_second_key))))
                       else ret None)
                      (\<lambda>static.
                         case static of
                           Some r \<Rightarrow> ret r
                         | None \<Rightarrow>
                             (case map_name of
                                PStr m \<Rightarrow>
                                  rbind (process_value h context top_level_key) (\<lambda>processed_top_key.
                                  rbind (process_value h context second_level_key) (\<lambda>processed_second_key.
                                  lift (find_in_map_local map_name processed_top_key processed_second_key)))
                              | _ \<Rightarrow> raise (AttributeError (type_name map_name) ''lower''))))
           | _ \<Rightarrow> ret (invalid_arguments ''FindInMap'' args))
      | _ \<Rightarrow>
          rbind (lift (py_unpack args)) (\<lambda>xs.
            case xs of
              [map_name, top_level_key, second_level_key] \<Rightarrow>
                rbind
                  (if py_in map_name (mappings h) then
                     except_KeyError_TypeError
                       (lift (find_in_map_static h map_name top_level_key second_level_key))
                   else ret None)
                  (\<lambda>static.
                     case static of
                       Some r \<Rightarrow> ret r
                     | None \<Rightarrow> lift (find_in_map_local map_name top_level_key second_level_key))
            | _ \<Rightarrow> ret (invalid_arguments ''FindInMap'' args)))"
| "handle_if h context args =
     (case args of
        PList xs \<Rightarrow>
          (case xs of
             [condition_name, true_value, false_value] \<Rightarrow>
               rbind (process_value h context true_value) (\<lambda>processed_true.
               rbind (process_value h context false_value) (\<lambda>processed_false.
               lift (if_result condition_name processed_true processed_false)))
           | _ \<Rightarrow> ret (invalid_arguments ''If'' args))
      | _ \<Rightarrow>
          rbind (lift (py_unpack args)) (\<lambda>xs.
            case xs of
              [condition_name, true_value, false_value] \<Rightarrow>
                lift (if_result condition_name true_value false_value)
            | _ \<Rightarrow> ret (invalid_arguments ''If'' args)))"
  by pat_completeness auto

text \<open>
  Every recursive call is on a part of the value at hand; a handler is called on the
  arguments of a one-key dictionary, and processes them or a part of them.
\<close>

termination
  by (relation "measure
        (case_sum
          (case_sum
            (case_sum (\<lambda>(h, c, v). 3 * size v)
              (case_sum (\<lambda>(h, c, xs). 3 * size (PList xs) - 1) (\<lambda>(h, c, d). 3 * size (PDict d) - 1)))
            (case_sum (\<lambda>(h, c, n, a). 3 * size a + 2)
              (case_sum (\<lambda>(h, c, a). 3 * size a + 1) (\<lambda>(h, c, a). 3 * size a + 1))))
          (case_sum
            (case_sum (\<lambda>(h, c, a). 3 * size a + 1)
              (case_sum (\<lambda>(h, c, a). 3 * size a + 1) (\<lambda>(h, c, a). 3 * size a + 1)))
            (case_sum (\<lambda>(h, c, a). 3 * size a + 1)
              (case_sum (\<lambda>(h, c, a). 3 * size a + 1) (\<lambda>(h, c, a). 3 * size a + 1)))))")
     auto

declare process_value.simps [simp del]
declare handle_intrinsic_function.simps [simp del]
declare handle_join.simps [simp del]
declare handle_sub.simps [simp del]
declare handle_select.simps [simp del]
declare handle_split.simps [simp del]
declare handle_base64.simps [simp del]
declare handle_get_azs.simps [simp del]
declare handle_find_in_map.simps [simp del]
declare handle_if.simps [simp del]

section \<open>The contracts of the specification\<close>

text \<open>
  A template string as the specification reads it: literal text and placeholders
  \<^verbatim>\<open>${name}\<close> in turn, then a last literal.
\<close>

fun sub_source :: "(string \<times> string) list \<Rightarrow> string \<Rightarrow> string" where
  "sub_source [] tail = tail"
| "sub_source ((lit, name) # segs) tail = lit @ ''${'' @ name @ ''}'' @ sub_source segs tail"

text \<open>The template string with each placeholder replaced by what \<open>repl\<close> gives for its name.\<close>

fun sub_expected :: "(string \<Rightarrow> error + string) \<Rightarrow> (string \<times> string) list \<Rightarrow> string \<Rightarrow> error + string" where
  "sub_expected repl [] tail = Inr tail"
| "sub_expected repl ((lit, name) # segs) tail =
     (case repl name of
        Inl e \<Rightarrow> Inl e
      | Inr r \<Rightarrow>
          (case sub_expected repl segs tail of
             Inl e \<Rightarrow> Inl e
           | Inr rest \<Rightarrow> Inr (lit @ r @ rest)))"

text \<open>
  The environment pseudo-values of the specification: the current region, the current
  account, the current partition and the name of the enclosing template, each with the
  expression \<^verbatim>\<open>_handle_ref\<close> gives for it.
\<close>

definition environment_pseudo_values :: "(string \<times> string) list" where
  "environment_pseudo_values =
     [(''AWS::Region'', ''data.aws_region.current.name''),
      (''AWS::AccountId'', ''data.aws_caller_identity.current.account_id''),
      (''AWS::Partition'', ''data.aws_partition.current.partition''),
      (''AWS::StackName'', ''var.stack_name'')]"

text \<open>
  The priority of the specification for one placeholder: the explicit substitution map,
  then an environment pseudo-value, then a declared parameter, then a resource of the
  same template, else the placeholder as it stands.
\<close>

definition sub_priority :: "handler \<Rightarrow> context \<Rightarrow> pydict \<Rightarrow> string \<Rightarrow> error + string" where
  "sub_priority h context substitutions name =
     (case map_of substitutions name of
        Some v \<Rightarrow> Inr (''${'' @ py_str v @ ''}'')
      | None \<Rightarrow>
          (case map_of environment_pseudo_values name of
             Some p \<Rightarrow> Inr (''${'' @ p @ ''}'')
           | None \<Rightarrow>
               if name \<in> fst ` set (parameters h) then Inr (''${var.'' @ lower name @ ''}'')
               else if name \<in> fst ` set (context_resources context) then
                 map_sum id (\<lambda>r. ''${'' @ r @ ''}'') (handle_ref h context (PStr name))
               else Inr (''${'' @ name @ ''}'')))"

text \<open>
  The value a map lookup finds at conversion time: the named table is in the template's
  mappings and both keys are strings present in it.
\<close>

definition known_value :: "handler \<Rightarrow> string \<Rightarrow> pyval \<Rightarrow> pyval \<Rightarrow> pyval option" where
  "known_value h map_name top_key second_key =
     (case (top_key, second_key) of
        (PStr t, PStr s) \<Rightarrow>
          (case map_of (mappings h) map_name of
             Some (PDict table) \<Rightarrow>
               (case map_of table t of
                  Some (PDict row) \<Rightarrow> map_of row s
                | _ \<Rightarrow> None)
           | _ \<Rightarrow> None)
      | _ \<Rightarrow> None)"

section \<open>ConversionEngine\<close>

text \<open>
  The private methods of the source have a leading underscore, which a name here cannot
  have: \<open>convert_resource\<close> below is \<^verbatim>\<open>_convert_resource\<close>, the method that
  \<^verbatim>\<open>convert_template\<close> calls for each resource (not the public method of that name),
  and so on for the others.
\<close>

record engine =
  preserve_names :: bool
  handle_functions :: bool

record ConversionResult =
  terraform_config :: pydict
  import_commands :: "string list"
  variables :: pydict
  outputs :: pydict
  locals :: pydict
  warnings :: "string list"
  errors :: "string list"

text \<open>\<^verbatim>\<open>ConversionResult(terraform_config={})\<close>\<close>

definition new_result :: ConversionResult where
  "new_result =
     \<lparr>terraform_config = [], import_commands = [], variables = [], outputs = [], locals = [],
      warnings = [], errors = []\<rparr>"

text \<open>The dictionary \<^verbatim>\<open>_convert_resource\<close> returns.\<close>

record converted =
  c_resources :: pydict
  c_import_commands :: "string list"
  c_warnings :: "string list"

text \<open>The template, with its sections typed as the source annotates them (dictionaries).\<close>

record template =
  Parameters :: pydict
  Mappings :: pydict
  Conditions :: pydict
  Resources :: pydict
  Outputs :: pydict

subsection \<open>More of Python\<close>

text \<open>\<^verbatim>\<open>needle in s\<close> for two strings.\<close>

fun is_substring :: "string \<Rightarrow> string \<Rightarrow> bool" where
  "is_substring needle [] = (needle = [])"
| "is_substring needle (c # cs) = (startswith (c # cs) needle \<or> is_substring needle cs)"

text \<open>\<^verbatim>\<open>k in v\<close> for a string \<^verbatim>\<open>k\<close> and any value \<^verbatim>\<open>v\<close>.\<close>

definition py_contains :: "string \<Rightarrow> pyval \<Rightarrow> error + bool" where
  "py_contains k v =
     (case v of
        PDict d \<Rightarrow> Inr (dict_in k d)
      | PStr s \<Rightarrow> Inr (is_substring k s)
      | PList xs \<Rightarrow> Inr (PStr k \<in> set xs)
      | _ \<Rightarrow> Inl (TypeError (''argument of type '' @ squote (type_name v) @ '' is not iterable'')))"

text \<open>\<^verbatim>\<open>d.pop(k)\<close> for a key that is in \<^verbatim>\<open>d\<close>: the dictionary without the key.\<close>

definition dict_pop :: "pydict \<Rightarrow> string \<Rightarrow> pydict" where
  "dict_pop d k = filter (\<lambda>(k', _). k' \<noteq> k) d"

text \<open>\<^verbatim>\<open>json.dumps(v)\<close> with its defaults.\<close>

definition json_char :: "char \<Rightarrow> string" where
  "json_char c =
     (if c = CHR 0x22 then [CHR 0x5C, CHR 0x22]
      else if c = CHR 0x5C then [CHR 0x5C, CHR 0x5C]
      else if c = CHR 0x0A then [CHR 0x5C, CHR ''n'']
      else if c = CHR 0x0D then [CHR 0x5C, CHR ''r'']
      else if c = CHR 0x09 then [CHR 0x5C, CHR ''t'']
      else if c = CHR 0x08 then [CHR 0x5C, CHR ''b'']
      else if c = CHR 0x0C then [CHR 0x5C, CHR ''f'']
      else if (of_char c :: nat) < 32 \<or> 127 \<le> (of_char c :: nat)
        then [CHR 0x5C, CHR ''u'', CHR ''0'', CHR ''0'',
              hex_char ((of_char c :: nat) div 16), hex_char ((of_char c :: nat) mod 16)]
      else [c])"

definition json_str :: "string \<Rightarrow> string" where
  "json_str s = dquote (concat (map json_char s))"

fun json_dumps :: "pyval \<Rightarrow> string"
and json_list :: "pyval list \<Rightarrow> string list"
and json_items :: "(string \<times> pyval) list \<Rightarrow> string list" where
  "json_dumps PNone = ''null''"
| "json_dumps (PBool b) = (if b then ''true'' else ''false'')"
| "json_dumps (PInt i) = str_int i"
| "json_dumps (PStr s) = json_str s"
| "json_dumps (PList xs) = ''['' @ join_str '', '' (json_list xs) @ '']''"
| "json_dumps (PDict d) = ''{'' @ join_str '', '' (json_items d) @ ''}''"
| "json_list [] = []"
| "json_list (x # xs) = json_dumps x # json_list xs"
| "json_items [] = []"
| "json_items ((k, v) # d) = (json_str k @ '': '' @ json_dumps v) # json_items d"

subsection \<open>\<^verbatim>\<open>ResourceMapper.map_properties\<close>\<close>

text \<open>
  Called with a type that has a mapping. The loop over \<^verbatim>\<open>cf_properties.items()\<close>
  stores each value under the mapped name, or under the lower-cased name.
\<close>

definition map_property_name :: "(string \<times> string) list \<Rightarrow> string \<Rightarrow> string" where
  "map_property_name property_mapping cf_prop =
     (case map_of property_mapping cf_prop of None \<Rightarrow> lower cf_prop | Some p \<Rightarrow> p)"

definition map_properties :: "pyval \<Rightarrow> pyval \<Rightarrow> error + pyval" where
  "map_properties cf_type cf_properties =
     (case get_terraform_type cf_type of
        Inl e \<Rightarrow> Inl e
      | Inr None \<Rightarrow> Inr cf_properties
      | Inr (Some terraform_type) \<Rightarrow>
          (let property_mapping =
                 (case map_of PROPERTY_MAPPINGS terraform_type of None \<Rightarrow> [] | Some m \<Rightarrow> m)
           in case cf_properties of
                PDict d \<Rightarrow>
                  Inr (PDict (fold (\<lambda>(cf_prop, v) acc.
                         dict_set acc (map_property_name property_mapping cf_prop) v) d []))
              | _ \<Rightarrow> Inl (AttributeError (type_name cf_properties) ''items'')))"

subsection \<open>The transformations by resource type\<close>

text \<open>\<^verbatim>\<open>properties.copy()\<close>, a method of dictionaries, starts every transformation.\<close>

definition dict_copy :: "pyval \<Rightarrow> error + pydict" where
  "dict_copy v = (case v of PDict d \<Rightarrow> Inr d | _ \<Rightarrow> Inl (AttributeError (type_name v) ''copy''))"

text \<open>A key renamed by \<^verbatim>\<open>d[new] = d.pop(old)\<close>, when it is there.\<close>

definition move_key :: "string \<Rightarrow> string \<Rightarrow> pydict \<Rightarrow> pydict" where
  "move_key old new d =
     (case map_of d old of
        None \<Rightarrow> d
      | Some v \<Rightarrow> dict_set (dict_pop d old) new v)"

definition transform_security_group_rule :: "pyval \<Rightarrow> string \<Rightarrow> error + pyval" where
  "transform_security_group_rule properties cf_type =
     (case dict_copy properties of
        Inl e \<Rightarrow> Inl e
      | Inr copied \<Rightarrow>
          (let transformed = dict_set copied ''type''
                 (PStr (if is_substring ''Ingress'' cf_type then ''ingress'' else ''egress''));
               transformed = move_key ''IpProtocol'' ''protocol'' transformed;
               transformed = move_key ''FromPort'' ''from_port'' transformed;
               transformed = move_key ''ToPort'' ''to_port'' transformed
           in case map_of transformed ''CidrIp'' of
                None \<Rightarrow> Inr (PDict transformed)
              | Some v \<Rightarrow>
                  Inr (PDict (dict_set (dict_pop transformed ''CidrIp'') ''cidr_blocks'' (PList [v])))))"

text \<open>The two steps of \<^verbatim>\<open>_transform_s3_bucket\<close>.\<close>

definition s3_bucket_encryption :: "pydict \<Rightarrow> error + pydict" where
  "s3_bucket_encryption transformed =
     (case map_of transformed ''BucketEncryption'' of
        None \<Rightarrow> Inr transformed
      | Some encryption_config \<Rightarrow>
          (case py_contains ''ServerSideEncryptionConfiguration'' encryption_config of
             Inl e \<Rightarrow> Inl e
           | Inr False \<Rightarrow> Inr (dict_pop transformed ''BucketEncryption'')
           | Inr True \<Rightarrow>
               (case py_getitem encryption_config ''ServerSideEncryptionConfiguration'' of
                  Inl e \<Rightarrow> Inl e
                | Inr v \<Rightarrow>
                    Inr (dict_set (dict_pop transformed ''BucketEncryption'')
                           ''server_side_encryption_configuration'' v))))"

definition s3_bucket_versioning :: "pydict \<Rightarrow> error + pydict" where
  "s3_bucket_versioning transformed =
     (case map_of transformed ''VersioningConfiguration'' of
        None \<Rightarrow> Inr transformed
      | Some versioning \<Rightarrow>
          (case py_get versioning ''Status'' PNone of
             Inl e \<Rightarrow> Inl e
           | Inr status \<Rightarrow>
               Inr (dict_set (dict_pop transformed ''VersioningConfiguration'') ''versioning''
                      (PDict [(''enabled'', PBool (status = PStr ''Enabled''))]))))"

definition transform_s3_bucket :: "pyval \<Rightarrow> error + pyval" where
  "transform_s3_bucket properties =
     (case dict_copy properties of
        Inl e \<Rightarrow> Inl e
      | Inr copied \<Rightarrow>
          (case s3_bucket_encryption copied of
             Inl e \<Rightarrow> Inl e
           | Inr transformed \<Rightarrow> map_sum id PDict (s3_bucket_versioning transformed)))"

definition transform_iam_role :: "pyval \<Rightarrow> error + pyval" where
  "transform_iam_role properties =
     (case dict_copy properties of
        Inl e \<Rightarrow> Inl e
      | Inr copied \<Rightarrow>
          (let transformed =
                 (case map_of copied ''AssumeRolePolicyDocument'' of
                    None \<Rightarrow> copied
                  | Some policy_doc \<Rightarrow>
                      dict_set (dict_pop copied ''AssumeRolePolicyDocument'') ''assume_role_policy''
                        (case policy_doc of
                           PDict _ \<Rightarrow> PStr (json_dumps policy_doc)
                         | _ \<Rightarrow> policy_doc))
           in Inr (PDict (move_key ''ManagedPolicyArns'' ''managed_policy_arns'' transformed))))"

text \<open>The \<^verbatim>\<open>Code\<close> step of \<^verbatim>\<open>_transform_lambda_function\<close>, after the pop.\<close>

definition lambda_code :: "pydict \<Rightarrow> pyval \<Rightarrow> error + pydict" where
  "lambda_code transformed code_config =
     (case py_contains ''S3Bucket'' code_config of
        Inl e \<Rightarrow> Inl e
      | Inr has_bucket \<Rightarrow>
          (case (if has_bucket then py_contains ''S3Key'' code_config else Inr False) of
             Inl e \<Rightarrow> Inl e
           | Inr True \<Rightarrow>
               (case py_getitem code_config ''S3Bucket'' of
                  Inl e \<Rightarrow> Inl e
                | Inr bucket \<Rightarrow>
                    (case py_getitem code_config ''S3Key'' of
                       Inl e \<Rightarrow> Inl e
                     | Inr key \<Rightarrow>
                         (let with_key = dict_set (dict_set transformed ''s3_bucket'' bucket) ''s3_key'' key
                          in case py_contains ''S3ObjectVersion'' code_config of
                               Inl e \<Rightarrow> Inl e
                             | Inr False \<Rightarrow> Inr with_key
                             | Inr True \<Rightarrow>
                                 (case py_getitem code_config ''S3ObjectVersion'' of
                                    Inl e \<Rightarrow> Inl e
                                  | Inr ver \<Rightarrow> Inr (dict_set with_key ''s3_object_version'' ver)))))
           | Inr False \<Rightarrow>
               (case py_contains ''ZipFile'' code_config of
                  Inl e \<Rightarrow> Inl e
                | Inr True \<Rightarrow> Inr (dict_set transformed ''filename'' (PStr ''lambda_function.zip''))
                | Inr False \<Rightarrow> Inr transformed)))"

definition transform_lambda_function :: "pyval \<Rightarrow> error + pyval" where
  "transform_lambda_function properties =
     (case dict_copy properties of
        Inl e \<Rightarrow> Inl e
      | Inr copied \<Rightarrow>
          (let transformed = move_key ''FunctionName'' ''function_name'' copied;
               transformed = move_key ''Runtime'' ''runtime'' transformed;
               transformed = move_key ''Handler'' ''handler'' transformed
           in case map_of transformed ''Code'' of
                None \<Rightarrow> Inr (PDict transformed)
              | Some code_config \<Rightarrow>
                  map_sum id PDict (lambda_code (dict_pop transformed ''Code'') code_config)))"

text \<open>\<^verbatim>\<open>_apply_resource_transformations\<close>\<close>

definition apply_resource_transformations :: "string \<Rightarrow> pyval \<Rightarrow> string \<Rightarrow> error + pyval" where
  "apply_resource_transformations cf_type properties logical_id =
     (if cf_type \<in> set [''AWS::EC2::SecurityGroupIngress'', ''AWS::EC2::SecurityGroupEgress'']
        then transform_security_group_rule properties cf_type
      else if cf_type = ''AWS::S3::Bucket'' then transform_s3_bucket properties
      else if cf_type = ''AWS::IAM::Role'' then transform_iam_role properties
      else if cf_type = ''AWS::Lambda::Function'' then transform_lambda_function properties
      else Inr properties)"

subsection \<open>Names and import commands\<close>

definition is_lower_or_digit :: "char \<Rightarrow> bool" where
  "is_lower_or_digit c = (c \<in> set ''abcdefghijklmnopqrstuvwxyz0123456789'')"

definition is_upper :: "char \<Rightarrow> bool" where
  "is_upper c = (c \<in> set ''ABCDEFGHIJKLMNOPQRSTUVWXYZ'')"

text \<open>\<^verbatim>\<open>re.sub('([a-z0-9])([A-Z])', r'\1_\2', s)\<close>\<close>

fun camel_to_snake :: "string \<Rightarrow> string" where
  "camel_to_snake (a # b # cs) =
     (if is_lower_or_digit a \<and> is_upper b then a # CHR ''_'' # b # camel_to_snake cs
      else a # camel_to_snake (b # cs))"
| "camel_to_snake cs = cs"

text \<open>\<^verbatim>\<open>re.sub(r'_+', '_', s)\<close>\<close>

fun squeeze_underscores :: "string \<Rightarrow> string" where
  "squeeze_underscores (a # b # cs) =
     (if a = CHR ''_'' \<and> b = CHR ''_'' then squeeze_underscores (b # cs)
      else a # squeeze_underscores (b # cs))"
| "squeeze_underscores cs = cs"

text \<open>\<^verbatim>\<open>s.strip('_')\<close>\<close>

definition strip_underscores :: "string \<Rightarrow> string" where
  "strip_underscores s =
     rev (dropWhile (\<lambda>c. c = CHR ''_'') (rev (dropWhile (\<lambda>c. c = CHR ''_'') s)))"

definition generate_resource_name :: "string \<Rightarrow> string" where
  "generate_resource_name logical_id =
     (let name = lower (camel_to_snake logical_id);
          name = map (\<lambda>c. if is_lower_or_digit c \<or> c = CHR ''_'' then c else CHR ''_'') name;
          name = squeeze_underscores name;
          name = strip_underscores name
      in if name = [] then ''resource'' else name)"

definition import_template_types :: "string list" where
  "import_template_types =
     [''aws_instance'', ''aws_vpc'', ''aws_subnet'', ''aws_security_group'', ''aws_s3_bucket'',
      ''aws_db_instance'', ''aws_iam_role'', ''aws_lambda_function'']"

definition generate_import_command :: "string \<Rightarrow> string \<Rightarrow> string \<Rightarrow> string option" where
  "generate_import_command terraform_type resource_name cf_type =
     (if terraform_type \<in> set import_template_types
      then Some (''terraform import '' @ terraform_type @ ''.'' @ resource_name @ '' PHYSICAL_ID'')
      else None)"

subsection \<open>\<^verbatim>\<open>_convert_nested_stack\<close> and \<^verbatim>\<open>_convert_resource\<close>\<close>

definition convert_nested_stack ::
  "string \<Rightarrow> pyval \<Rightarrow> handler \<Rightarrow> context \<Rightarrow> converted res" where
  "convert_nested_stack logical_id resource_config h context =
     rbind (lift (py_get resource_config ''Properties'' (PDict []))) (\<lambda>properties.
     rbind (lift (py_get properties ''TemplateURL'' (PStr []))) (\<lambda>template_url.
     rbind (lift (py_get properties ''Parameters'' (PDict []))) (\<lambda>params.
       case params of
         PDict ps \<Rightarrow>
           rbind (process_items h context ps) (\<lambda>processed.
           ret \<lparr>c_resources =
                  [(''module'',
                    PDict [(lower logical_id,
                      PDict (fold (\<lambda>(param_name, v) acc. dict_set acc (lower param_name) v) processed
                        [(''source'', PStr (''# TODO: Convert nested stack template from '' @
                            py_str template_url))]))])],
                c_import_commands = [],
                c_warnings = [''Nested stack '' @ logical_id @ '' requires manual template conversion'']\<rparr>)
       | _ \<Rightarrow> raise (AttributeError (type_name params) ''items''))))"

definition convert_resource ::
  "engine \<Rightarrow> string \<Rightarrow> pyval \<Rightarrow> handler \<Rightarrow> context \<Rightarrow> converted option res" where
  "convert_resource eng logical_id resource_config h context =
     rbind (lift (py_get resource_config ''Type'' PNone)) (\<lambda>cf_type.
       if \<not> truthy cf_type then ret None
       else
         rbind (lift (get_terraform_type cf_type)) (\<lambda>mapped.
           case mapped of
             None \<Rightarrow>
               rbind (logger WARNING (''No Terraform mapping for CloudFormation type: '' @ py_str cf_type)) (\<lambda>_.
               ret (Some \<lparr>c_resources = [], c_import_commands = [],
                          c_warnings = [''Unsupported resource type: '' @ py_str cf_type]\<rparr>))
           | Some terraform_type \<Rightarrow>
               if cf_type = PStr ''AWS::CloudFormation::Stack''
               then rbind (convert_nested_stack logical_id resource_config h context) (\<lambda>c. ret (Some c))
               else
                 rbind (lift (py_get resource_config ''Properties'' (PDict []))) (\<lambda>cf_properties.
                 rbind (if handle_functions eng then process_value h context cf_properties
                        else ret cf_properties) (\<lambda>processed_properties.
                 rbind (lift (map_properties cf_type processed_properties)) (\<lambda>mapped_properties.
                 rbind (lift (apply_resource_transformations (py_str cf_type) mapped_properties logical_id))
                   (\<lambda>terraform_properties.
                   let resource_name =
                         (if preserve_names eng then lower logical_id
                          else generate_resource_name logical_id)
                   in ret (Some
                        \<lparr>c_resources = [(terraform_type, PDict [(resource_name, terraform_properties)])],
                         c_import_commands =
                           (case generate_import_command terraform_type resource_name (py_str cf_type) of
                              None \<Rightarrow> []
                            | Some import_command \<Rightarrow> [import_command]),
                         c_warnings = []\<rparr>)))))))"

subsection \<open>Parameters, mappings, conditions and outputs\<close>

definition parameter_type_mapping :: "(string \<times> string) list" where
  "parameter_type_mapping =
     [(''String'', ''string''),
      (''Number'', ''number''),
      (''CommaDelimitedList'', ''list(string)''),
      (''AWS::EC2::AvailabilityZone::Name'', ''string''),
      (''AWS::EC2::Image::Id'', ''string''),
      (''AWS::EC2::Instance::Id'', ''string''),
      (''AWS::EC2::KeyPair::KeyName'', ''string''),
      (''AWS::EC2::SecurityGroup::Id'', ''string''),
      (''AWS::EC2::Subnet::Id'', ''string''),
      (''AWS::EC2::VPC::Id'', ''string''),
      (''AWS::Route53::HostedZone::Id'', ''string''),
      (''AWS::SSM::Parameter::Value<String>'', ''string'')]"

definition map_parameter_type :: "pyval \<Rightarrow> error + string" where
  "map_parameter_type cf_type =
     (case unhashable cf_type of
        Some e \<Rightarrow> Inl e
      | None \<Rightarrow>
          (case cf_type of
             PStr t \<Rightarrow> Inr (case map_of parameter_type_mapping t of None \<Rightarrow> ''string'' | Some ty \<Rightarrow> ty)
           | _ \<Rightarrow> Inr ''string''))"

text \<open>\<^verbatim>\<open>sep.join(v)\<close> for any value \<^verbatim>\<open>v\<close>: every item must be a string.\<close>

fun join_items :: "nat \<Rightarrow> pyval list \<Rightarrow> error + string list" where
  "join_items i [] = Inr []"
| "join_items i (x # xs) =
     (case x of
        PStr s \<Rightarrow> (case join_items (Suc i) xs of Inl e \<Rightarrow> Inl e | Inr ss \<Rightarrow> Inr (s # ss))
      | _ \<Rightarrow>
          Inl (TypeError (''sequence item '' @ str_nat i @ '': expected str instance, '' @
                type_name x @ '' found'')))"

definition py_join :: "string \<Rightarrow> pyval \<Rightarrow> error + string" where
  "py_join sep v =
     (case py_iter v of
        Inl _ \<Rightarrow> Inl (TypeError ''can only join an iterable'')
      | Inr xs \<Rightarrow> (case join_items 0 xs of Inl e \<Rightarrow> Inl e | Inr ss \<Rightarrow> Inr (join_str sep ss)))"

text \<open>The body of the loop of \<^verbatim>\<open>_convert_parameters\<close>: the variable of one parameter.\<close>

definition variable_def :: "string \<Rightarrow> pyval \<Rightarrow> error + pydict" where
  "variable_def param_name param_config =
     (case py_get param_config ''Description'' (PStr (''CloudFormation parameter '' @ param_name)) of
        Inl e \<Rightarrow> Inl e
      | Inr description \<Rightarrow>
          (case py_get param_config ''Type'' (PStr ''String'') of
             Inl e \<Rightarrow> Inl e
           | Inr cf_type \<Rightarrow>
               (case map_parameter_type cf_type of
                  Inl e \<Rightarrow> Inl e
                | Inr ty \<Rightarrow>
                    (case param_config of
                       PDict config \<Rightarrow>
                         (let d = [(''description'', description), (''type'', PStr ty)];
                              d = (case map_of config ''Default'' of
                                     None \<Rightarrow> d
                                   | Some dflt \<Rightarrow> dict_set d ''default'' dflt)
                          in case map_of config ''AllowedValues'' of
                               None \<Rightarrow> Inr d
                             | Some allowed \<Rightarrow>
                                 (case py_join '', '' allowed of
                                    Inl e \<Rightarrow> Inl e
                                  | Inr joined \<Rightarrow>
                                      Inr (dict_set d ''validation''
                                        (PDict
                                          [(''condition'',
                                            PStr (''contains('' @ py_str allowed @ '', var.'' @
                                              lower param_name @ '')'')),
                                           (''error_message'',
                                            PStr (''Value must be one of: '' @ joined))]))))
                     | _ \<Rightarrow> Inl (AttributeError (type_name param_config) ''get'')))))"

fun convert_parameters_from :: "pydict \<Rightarrow> pydict \<Rightarrow> error + pydict" where
  "convert_parameters_from [] vars = Inr vars"
| "convert_parameters_from ((param_name, param_config) # ps) vars =
     (case variable_def param_name param_config of
        Inl e \<Rightarrow> Inl e
      | Inr d \<Rightarrow> convert_parameters_from ps (dict_set vars (lower param_name) (PDict d)))"

definition convert_parameters :: "pydict \<Rightarrow> error + pydict" where
  "convert_parameters ps = convert_parameters_from ps []"

definition convert_mappings :: "pydict \<Rightarrow> pydict" where
  "convert_mappings ms =
     fold (\<lambda>(mapping_name, mapping_data) locals_dict.
             dict_set locals_dict (lower mapping_name) mapping_data) ms []"

definition convert_conditions :: "pydict \<Rightarrow> handler \<Rightarrow> pydict" where
  "convert_conditions conditions h =
     fold (\<lambda>(condition_name, condition_expr) locals_dict.
             dict_set locals_dict (lower condition_name)
               (PStr (''# TODO: Convert condition '' @ condition_name))) conditions []"

text \<open>\<^verbatim>\<open>v += s\<close> for a string \<^verbatim>\<open>s\<close>: a string is extended, a list takes the characters.\<close>

definition py_iadd_str :: "pyval \<Rightarrow> string \<Rightarrow> error + pyval" where
  "py_iadd_str v s =
     (case v of
        PStr d \<Rightarrow> Inr (PStr (d @ s))
      | PList xs \<Rightarrow> Inr (PList (xs @ map (\<lambda>c. PStr [c]) s))
      | _ \<Rightarrow>
          Inl (TypeError (''unsupported operand type(s) for +=: '' @ squote (type_name v) @
                '' and '' @ squote ''str'')))"

text \<open>The body of the loop of \<^verbatim>\<open>_convert_outputs\<close>: the definition of one output.\<close>

definition output_def :: "string \<Rightarrow> pyval \<Rightarrow> handler \<Rightarrow> context \<Rightarrow> pydict res" where
  "output_def output_name output_config h context =
     rbind (lift (py_get output_config ''Description'' (PStr (''CloudFormation output '' @ output_name))))
       (\<lambda>description.
     rbind (lift (py_get output_config ''Value'' PNone)) (\<lambda>v.
     rbind (process_value h context v) (\<lambda>processed.
       case output_config of
         PDict config \<Rightarrow>
           (case map_of config ''Export'' of
              None \<Rightarrow> ret [(''description'', description), (''value'', processed)]
            | Some export \<Rightarrow>
                rbind (lift (py_get export ''Name'' PNone)) (\<lambda>export_name.
                  if truthy export_name then
                    rbind (lift (py_iadd_str description ('' (exported as '' @ py_str export_name @ '')'')))
                      (\<lambda>description'. ret [(''description'', description'), (''value'', processed)])
                  else ret [(''description'', description), (''value'', processed)]))
       | _ \<Rightarrow> raise (AttributeError (type_name output_config) ''get''))))"

fun convert_outputs_from :: "pydict \<Rightarrow> handler \<Rightarrow> context \<Rightarrow> pydict \<Rightarrow> pydict res" where
  "convert_outputs_from [] h context terraform_outputs = ret terraform_outputs"
| "convert_outputs_from ((output_name, output_config) # os) h context terraform_outputs =
     rbind (output_def output_name output_config h context) (\<lambda>d.
     convert_outputs_from os h context (dict_set terraform_outputs (lower output_name) (PDict d)))"

definition convert_outputs :: "pydict \<Rightarrow> handler \<Rightarrow> context \<Rightarrow> pydict res" where
  "convert_outputs os h context = convert_outputs_from os h context []"

definition generate_data_sources :: pyval where
  "generate_data_sources =
     PDict
       [(''aws_region'', PDict [(''current'', PDict [])]),
        (''aws_caller_identity'', PDict [(''current'', PDict [])]),
        (''aws_partition'', PDict [(''current'', PDict [])]),
        (''aws_availability_zones'',
         PDict [(''available'', PDict [(''state'', PStr ''available'')])])]"

subsection \<open>\<^verbatim>\<open>convert_template\<close>\<close>

text \<open>
  The loop over \<^verbatim>\<open>resources.items()\<close>. Its state is the result under construction, the
  dictionary \<^verbatim>\<open>terraform_resources\<close> and the log. The \<^verbatim>\<open>except Exception\<close> of the loop
  body catches whatever \<^verbatim>\<open>_convert_resource\<close> raises.
\<close>

type_synonym loop_state = "ConversionResult \<times> pydict \<times> logrec list"

definition resource_failed :: "string \<Rightarrow> error \<Rightarrow> logrec list \<Rightarrow> loop_state \<Rightarrow> loop_state" where
  "resource_failed logical_id e l st =
     (case st of (result, terraform_resources, log) \<Rightarrow>
        (let error_msg = ''Failed to convert resource '' @ logical_id @ '': '' @ exc_str e
         in (result\<lparr>errors := errors result @ [error_msg]\<rparr>, terraform_resources,
             log @ l @ [(ERROR, error_msg)])))"

definition resource_converted :: "converted option \<Rightarrow> logrec list \<Rightarrow> loop_state \<Rightarrow> loop_state" where
  "resource_converted converted_resource l st =
     (case st of (result, terraform_resources, log) \<Rightarrow>
        (case converted_resource of
           None \<Rightarrow> (result, terraform_resources, log @ l)
         | Some c \<Rightarrow>
             (result\<lparr>import_commands := import_commands result @ c_import_commands c,
                      warnings := warnings result @ c_warnings c\<rparr>,
              dict_update terraform_resources (c_resources c),
              log @ l)))"

fun convert_resources :: "engine \<Rightarrow> handler \<Rightarrow> context \<Rightarrow> pydict \<Rightarrow> loop_state \<Rightarrow> loop_state" where
  "convert_resources eng h context [] st = st"
| "convert_resources eng h context ((logical_id, resource_config) # rs) st =
     convert_resources eng h context rs
       (case convert_resource eng logical_id resource_config h context of
          (Inl e, l) \<Rightarrow> resource_failed logical_id e l st
        | (Inr converted_resource, l) \<Rightarrow> resource_converted converted_resource l st)"

text \<open>The \<^verbatim>\<open>except Exception\<close> around the whole body.\<close>

definition template_failed ::
  "ConversionResult \<Rightarrow> error \<Rightarrow> logrec list \<Rightarrow> ConversionResult \<times> logrec list" where
  "template_failed result e log =
     (let error_msg = ''Template conversion failed: '' @ exc_str e
      in (result\<lparr>errors := errors result @ [error_msg]\<rparr>, log @ [(ERROR, error_msg)]))"

definition template_handler :: "template \<Rightarrow> handler" where
  "template_handler t = \<lparr>parameters = Parameters t, mappings = Mappings t\<rparr>"

definition template_context :: "template \<Rightarrow> context" where
  "template_context t = [(''resources'', Resources t), (''parameters'', Parameters t)]"

text \<open>The result as it stands when the loop over the resources starts.\<close>

definition before_resources :: "template \<Rightarrow> pydict \<Rightarrow> ConversionResult" where
  "before_resources t vars =
     (let result = new_result\<lparr>variables := vars\<rparr>;
          result = (if Mappings t \<noteq> []
                    then result\<lparr>locals := dict_update (locals result) (convert_mappings (Mappings t))\<rparr>
                    else result)
      in if Conditions t \<noteq> []
         then result\<lparr>locals := dict_update (locals result)
                (convert_conditions (Conditions t) (template_handler t))\<rparr>
         else result)"

text \<open>The first and the last phase, each of which the outer handler guards.\<close>

definition variables_phase :: "template \<Rightarrow> error + pydict" where
  "variables_phase t =
     (if Parameters t \<noteq> [] then convert_parameters (Parameters t) else Inr (variables new_result))"

definition outputs_phase :: "template \<Rightarrow> ConversionResult \<Rightarrow> pydict res" where
  "outputs_phase t result =
     (if Outputs t \<noteq> []
      then convert_outputs (Outputs t) (template_handler t) (template_context t)
      else ret (outputs result))"

definition convert_template :: "engine \<Rightarrow> template \<Rightarrow> ConversionResult \<times> logrec list" where
  "convert_template eng t =
     (let log0 = [(INFO, ''Converting CloudFormation template to Terraform'')]
      in case variables_phase t of
           Inl e \<Rightarrow> template_failed new_result e log0
         | Inr vars \<Rightarrow>
             (case convert_resources eng (template_handler t) (template_context t) (Resources t)
                     (before_resources t vars, [], log0) of
                (result, terraform_resources, log1) \<Rightarrow>
                  (let result = result\<lparr>terraform_config :=
                         dict_set (terraform_config result) ''resource'' (PDict terraform_resources)\<rparr>
                   in case outputs_phase t result of
                        (Inl e, l) \<Rightarrow> template_failed result e (log1 @ l)
                      | (Inr outs, l) \<Rightarrow>
                          (let result = result\<lparr>outputs := outs\<rparr>;
                               result = result\<lparr>terraform_config :=
                                 dict_set (terraform_config result) ''data'' generate_data_sources\<rparr>;
                               result = (if locals result \<noteq> []
                                         then result\<lparr>terraform_config :=
                                           dict_set (terraform_config result) ''locals''
                                             (PDict (locals result))\<rparr>
                                         else result)
                           in (result,
                               log1 @ l @
                               [(INFO, ''Template conversion completed: '' @
                                  str_nat (length terraform_resources) @ '' resources converted'')])))))"




text \<open>
  A position in a value: a path of dictionary keys and list indices that goes through
  data only. A dictionary that \<^verbatim>\<open>process_value\<close> takes for a function call (one key,
  \<^verbatim>\<open>Ref\<close> or starting with \<^verbatim>\<open>Fn::\<close>) has no positions below it.
\<close>

datatype step = Key string | Index nat

fun is_call :: "pyval \<Rightarrow> bool" where
  "is_call (PDict [(k, v)]) = (startswith k ''Fn::'' \<or> k = ''Ref'')"
| "is_call _ = False"

fun value_at :: "pyval \<Rightarrow> step list \<Rightarrow> pyval option" where
  "value_at v [] = Some v"
| "value_at (PDict d) (Key k # path) =
     (if is_call (PDict d) then None
      else case map_of d k of None \<Rightarrow> None | Some x \<Rightarrow> value_at x path)"
| "value_at (PList xs) (Index i # path) = (if i < length xs then value_at (xs ! i) path else None)"
| "value_at _ _ = None"

text \<open>The Terraform name \<^verbatim>\<open>map_properties\<close> stores a property of a resource under.\<close>

abbreviation terraform_property :: "string \<Rightarrow> string \<Rightarrow> string" where
  "terraform_property terraform_type cf_prop \<equiv>
     map_property_name
       (case map_of PROPERTY_MAPPINGS terraform_type of None \<Rightarrow> [] | Some m \<Rightarrow> m) cf_prop"

section \<open>ImportManager\<close>

text \<open>
  \<^verbatim>\<open>imports.py\<close> works on the file system and runs processes. What it finds there is
  the environment: which directories \<^verbatim>\<open>os.chdir\<close> can enter, which paths exist, what
  reading the script gives, what \<^verbatim>\<open>mkdir\<close> and \<^verbatim>\<open>shutil.copy2\<close> raise, what the
  clock says, and how each run of a command ends. The environment does not change while
  the executor runs. Elapsed times (\<^verbatim>\<open>execution_time\<close>, \<^verbatim>\<open>total_time\<close>) are left out.
\<close>

text \<open>How \<^verbatim>\<open>subprocess.run\<close> ends: a completed process, or an exception.\<close>

datatype outcome =
    Completed int string string  \<comment> \<open>return code, standard output, standard error\<close>
  | Raised error

text \<open>The dictionaries \<^verbatim>\<open>_parse_import_script\<close> builds.\<close>

record cmd_info =
  command :: string
  address :: string
  ident :: string  \<comment> \<open>the key \<^verbatim>\<open>'id'\<close>\<close>

record environment =
  directory_exists :: "string \<Rightarrow> bool"
  path_exists :: "string \<Rightarrow> bool"
  readlines :: "string \<Rightarrow> error + string list"
  mkdir :: "string \<Rightarrow> error option"
  copy2 :: "string \<Rightarrow> string \<Rightarrow> error option"
  timestamp :: string
  subprocess_run :: "string \<Rightarrow> nat \<Rightarrow> outcome"
    \<comment> \<open>the command and how many times it has run before\<close>
  as_completed :: "cmd_info list \<Rightarrow> cmd_info list"
    \<comment> \<open>the order in which the futures of the submitted commands complete\<close>

text \<open>
  What the executor changes: the working directory of the process, the commands run, the
  copies made, and the log.
\<close>

record world =
  cwd :: string
  executed :: "string list"
  copied :: "(string \<times> string) list"
  logged :: "logrec list"

record ImportResult =
  resource_address :: string
  resource_id :: string
  success :: bool
  error_message :: "string option"
  retry_count :: int

text \<open>
  The field \<^verbatim>\<open>errors\<close> of \<^verbatim>\<open>ImportSummary\<close> is \<open>summary_errors\<close> here
  (\<open>errors\<close> is the field of \<^verbatim>\<open>ConversionResult\<close>).
\<close>

record ImportSummary =
  total_imports :: int
  successful_imports :: int
  failed_imports :: int
  results :: "ImportResult list"
  summary_errors :: "string list"

definition new_summary :: ImportSummary where
  "new_summary =
     \<lparr>total_imports = 0, successful_imports = 0, failed_imports = 0, results = [],
      summary_errors = []\<rparr>"

text \<open>The attributes of the manager; \<^verbatim>\<open>terraform_dir\<close> is the resolved path.\<close>

record ImportManager =
  terraform_dir :: string
  parallel :: bool
  max_workers :: int
  timeout :: int
  retry_failed :: bool
  max_retries :: int
  create_backup :: bool

text \<open>The dictionary \<^verbatim>\<open>_execute_terraform_command\<close> returns.\<close>

record process_result =
  returncode :: int
  stdout :: string
  stderr :: string
  process_command :: string

definition log_record :: "level \<Rightarrow> string \<Rightarrow> world \<Rightarrow> world" where
  "log_record l m w = w\<lparr>logged := logged w @ [(l, m)]\<rparr>"

text \<open>
  \<^verbatim>\<open>os.getcwd()\<close> and \<^verbatim>\<open>os.chdir(d)\<close>: the first raises when the working directory
  is no longer there, the second when \<^verbatim>\<open>d\<close> cannot be entered.
\<close>

definition getcwd :: "environment \<Rightarrow> world \<Rightarrow> error + string" where
  "getcwd env w =
     (if directory_exists env (cwd w) then Inr (cwd w)
      else Inl (FileNotFoundError ''[Errno 2] No such file or directory''))"

definition chdir :: "environment \<Rightarrow> string \<Rightarrow> world \<Rightarrow> (error + unit) \<times> world" where
  "chdir env d w =
     (if directory_exists env d then (Inr (), w\<lparr>cwd := d\<rparr>)
      else (Inl (FileNotFoundError (''[Errno 2] No such file or directory: '' @ repr_str d)), w))"

subsection \<open>\<^verbatim>\<open>_execute_terraform_command\<close>\<close>

text \<open>
  The \<^verbatim>\<open>finally\<close> block: \<^verbatim>\<open>os.chdir(original_cwd)\<close> runs after the body, whatever
  the body returned or raised; an exception of its own replaces the body's. When
  \<^verbatim>\<open>os.getcwd()\<close> itself raised, \<^verbatim>\<open>original_cwd\<close> has no value, and the block raises
  \<^verbatim>\<open>UnboundLocalError\<close> (its message is the one of Python 3.8 to 3.10).
\<close>

definition restore_cwd ::
  "environment \<Rightarrow> string \<Rightarrow> error + process_result \<Rightarrow> world \<Rightarrow> (error + process_result) \<times> world" where
  "restore_cwd env original_cwd r w =
     (case chdir env original_cwd w of
        (Inl e, w') \<Rightarrow> (Inl e, w')
      | (Inr _, w') \<Rightarrow> (r, w'))"

definition execute_terraform_command ::
  "environment \<Rightarrow> ImportManager \<Rightarrow> string \<Rightarrow> world \<Rightarrow> (error + process_result) \<times> world" where
  "execute_terraform_command env m cmd w =
     (case getcwd env w of
        Inl e \<Rightarrow> (Inl (UnboundLocalError ''original_cwd''), w)
      | Inr original_cwd \<Rightarrow>
          (case chdir env (terraform_dir m) w of
             (Inl e, w1) \<Rightarrow>
               restore_cwd env original_cwd
                 (Inl (Exception (''Failed to execute command '' @ squote cmd @ '': '' @ exc_str e))) w1
           | (Inr _, w1) \<Rightarrow>
               (let w2 = w1\<lparr>executed := executed w1 @ [cmd]\<rparr>
                in case subprocess_run env cmd (count_list (executed w1) cmd) of
                     Completed rc out err \<Rightarrow>
                       restore_cwd env original_cwd
                         (Inr \<lparr>returncode = rc, stdout = out, stderr = err, process_command = cmd\<rparr>) w2
                   | Raised (TimeoutExpired _) \<Rightarrow>
                       restore_cwd env original_cwd
                         (Inl (Exception (''Command timed out after '' @ str_int (timeout m) @
                            '' seconds: '' @ cmd))) w2
                   | Raised e \<Rightarrow>
                       restore_cwd env original_cwd
                         (Inl (Exception (''Failed to execute command '' @ squote cmd @ '': '' @
                            exc_str e))) w2)))"

subsection \<open>\<^verbatim>\<open>_execute_single_import\<close>\<close>

definition execute_single_import ::
  "environment \<Rightarrow> ImportManager \<Rightarrow> cmd_info \<Rightarrow> int \<Rightarrow> world \<Rightarrow> ImportResult \<times> world" where
  "execute_single_import env m info retries w =
     (let result = \<lparr>resource_address = address info, resource_id = ident info, success = False,
                     error_message = None, retry_count = retries\<rparr>
      in case execute_terraform_command env m (command info) w of
           (Inr process, w') \<Rightarrow>
             if returncode process = 0
             then (result\<lparr>success := True\<rparr>,
                   log_record DEBUG (''Successfully imported '' @ resource_address result) w')
             else (result\<lparr>error_message := Some (stderr process)\<rparr>,
                   log_record WARNING (''Failed to import '' @ resource_address result @ '': '' @
                     stderr process) w')
         | (Inl e, w') \<Rightarrow>
             (result\<lparr>error_message := Some (exc_str e)\<rparr>,
              log_record ERROR (''Exception during import: '' @ exc_str e) w'))"

subsection \<open>\<^verbatim>\<open>_execute_sequential_imports\<close> and \<^verbatim>\<open>_execute_parallel_imports\<close>\<close>

text \<open>
  The body of the sequential loop. Nothing in it raises (\<^verbatim>\<open>_execute_single_import\<close>
  catches every exception), so the \<^verbatim>\<open>except Exception\<close> of the loop has no branch here.
\<close>

definition sequential_step ::
  "environment \<Rightarrow> ImportManager \<Rightarrow> cmd_info \<Rightarrow> ImportSummary \<times> world \<Rightarrow> ImportSummary \<times> world" where
  "sequential_step env m info st =
     (case st of (summary, w) \<Rightarrow>
        (case execute_single_import env m info 0 w of
           (result, w1) \<Rightarrow>
             (let summary = summary\<lparr>results := results summary @ [result]\<rparr>
              in if success result
                 then (summary\<lparr>successful_imports := successful_imports summary + 1\<rparr>, w1)
                 else
                   (let summary = summary\<lparr>failed_imports := failed_imports summary + 1\<rparr>
                    in if retry_failed m \<and> retry_count result < max_retries m
                       then
                         (case execute_single_import env m info (retry_count result + 1)
                                 (log_record INFO (''Retrying import for '' @ resource_address result) w1) of
                            (retry_result, w2) \<Rightarrow>
                              (let summary = summary\<lparr>results := results summary @ [retry_result]\<rparr>
                               in if success retry_result
                                  then (summary\<lparr>successful_imports := successful_imports summary + 1,
                                                failed_imports := failed_imports summary - 1\<rparr>, w2)
                                  else (summary\<lparr>failed_imports := failed_imports summary + 1\<rparr>, w2)))
                       else (summary, w1)))))"

definition execute_sequential_imports ::
  "environment \<Rightarrow> ImportManager \<Rightarrow> cmd_info list \<Rightarrow> world \<Rightarrow> ImportSummary \<times> world" where
  "execute_sequential_imports env m commands w =
     fold (sequential_step env m) commands
       (new_summary\<lparr>total_imports := int (length commands)\<rparr>, w)"

text \<open>
  The pool of workers runs \<^verbatim>\<open>_execute_single_import\<close> once for every command, and the
  loop over \<^verbatim>\<open>as_completed\<close> takes the results as the futures complete. Here the calls
  run one after the other, in the order of completion. A pool of no workers is refused
  by \<^verbatim>\<open>ThreadPoolExecutor\<close>.
\<close>

definition parallel_step ::
  "environment \<Rightarrow> ImportManager \<Rightarrow> cmd_info \<Rightarrow> ImportSummary \<times> world \<Rightarrow> ImportSummary \<times> world" where
  "parallel_step env m info st =
     (case st of (summary, w) \<Rightarrow>
        (case execute_single_import env m info 0 w of
           (result, w1) \<Rightarrow>
             (let summary = summary\<lparr>results := results summary @ [result]\<rparr>
              in if success result
                 then (summary\<lparr>successful_imports := successful_imports summary + 1\<rparr>, w1)
                 else (summary\<lparr>failed_imports := failed_imports summary + 1\<rparr>, w1))))"

definition execute_parallel_imports ::
  "environment \<Rightarrow> ImportManager \<Rightarrow> cmd_info list \<Rightarrow> world \<Rightarrow> (error + ImportSummary) \<times> world" where
  "execute_parallel_imports env m commands w =
     (if max_workers m \<le> 0 then (Inl (ValueError ''max_workers must be greater than 0''), w)
      else
        (case fold (parallel_step env m) (as_completed env commands)
                (new_summary\<lparr>total_imports := int (length commands)\<rparr>, w) of
           (summary, w') \<Rightarrow> (Inr summary, w')))"

subsection \<open>\<^verbatim>\<open>_create_state_backup\<close>\<close>

text \<open>\<^verbatim>\<open>d / name\<close> for an absolute path \<^verbatim>\<open>d\<close>.\<close>

definition path_join :: "string \<Rightarrow> string \<Rightarrow> string" where
  "path_join d name = (if d = ''/'' then d @ name else d @ ''/'' @ name)"

fun backup_state_files ::
  "environment \<Rightarrow> ImportManager \<Rightarrow> string list \<Rightarrow> world \<Rightarrow> (error + unit) \<times> world" where
  "backup_state_files env m [] w = (Inr (), w)"
| "backup_state_files env m (state_file # state_files) w =
     (let state_path = path_join (terraform_dir m) state_file
      in if path_exists env state_path
         then
           (let backup_path = path_join (path_join (terraform_dir m) ''state_backups'')
                                (state_file @ ''.'' @ timestamp env)
            in case copy2 env state_path backup_path of
                 Some e \<Rightarrow> (Inl e, w)
               | None \<Rightarrow>
                   backup_state_files env m state_files
                     (log_record INFO (''Created state backup: '' @ backup_path)
                        (w\<lparr>copied := copied w @ [(state_path, backup_path)]\<rparr>)))
         else backup_state_files env m state_files w)"

definition create_state_backup ::
  "environment \<Rightarrow> ImportManager \<Rightarrow> world \<Rightarrow> (error + unit) \<times> world" where
  "create_state_backup env m w =
     (case mkdir env (path_join (terraform_dir m) ''state_backups'') of
        Some e \<Rightarrow> (Inl e, w)
      | None \<Rightarrow> backup_state_files env m [''terraform.tfstate'', ''terraform.tfstate.backup''] w)"

subsection \<open>\<^verbatim>\<open>_parse_import_script\<close>\<close>

text \<open>The characters \<^verbatim>\<open>str.strip()\<close> removes.\<close>

definition is_space :: "char \<Rightarrow> bool" where
  "is_space c = ((of_char c :: nat) \<in> set [9, 10, 11, 12, 13, 28, 29, 30, 31, 32, 133, 160])"

definition strip :: "string \<Rightarrow> string" where
  "strip s = rev (dropWhile is_space (rev (dropWhile is_space s)))"

text \<open>\<^verbatim>\<open>s.split(' ', n)\<close>\<close>

fun split_space :: "nat \<Rightarrow> string \<Rightarrow> string list" where
  "split_space 0 s = [s]"
| "split_space (Suc n) s =
     (if CHR '' '' \<in> set s
      then takeWhile (\<lambda>c. c \<noteq> CHR '' '') s # split_space n (tl (dropWhile (\<lambda>c. c \<noteq> CHR '' '') s))
      else [s])"

definition parse_line :: "string \<Rightarrow> cmd_info option" where
  "parse_line raw =
     (let line = strip raw
      in if startswith line ''terraform import ''
         then
           (let parts = split_space 3 line
            in if 3 \<le> length parts
               then Some \<lparr>command = line, address = parts ! 2,
                           ident = (if 3 < length parts then parts ! 3 else [])\<rparr>
               else None)
         else None)"

definition parse_import_script :: "environment \<Rightarrow> string \<Rightarrow> error + cmd_info list" where
  "parse_import_script env script_path =
     (case readlines env script_path of
        Inl e \<Rightarrow> Inl e
      | Inr script_lines \<Rightarrow> Inr (List.map_filter parse_line script_lines))"

subsection \<open>\<^verbatim>\<open>execute_import_script\<close>\<close>

text \<open>The \<^verbatim>\<open>except Exception\<close> of the \<^verbatim>\<open>try\<close> block, for the summary as it stands.\<close>

definition script_failed :: "ImportSummary \<Rightarrow> error \<Rightarrow> world \<Rightarrow> (error + ImportSummary) \<times> world" where
  "script_failed summary e w =
     (let error_msg = ''Import script execution failed: '' @ exc_str e
      in (Inr (summary\<lparr>summary_errors := summary_errors summary @ [error_msg]\<rparr>),
          log_record ERROR error_msg w))"

definition script_completed :: "ImportSummary \<Rightarrow> world \<Rightarrow> (error + ImportSummary) \<times> world" where
  "script_completed summary w =
     (Inr summary,
      log_record INFO (''Import execution completed: '' @ str_int (successful_imports summary) @
        ''/'' @ str_int (total_imports summary) @ '' successful'') w)"

definition execute_import_script ::
  "environment \<Rightarrow> ImportManager \<Rightarrow> string \<Rightarrow> world \<Rightarrow> (error + ImportSummary) \<times> world" where
  "execute_import_script env m import_script w =
     (let w = log_record INFO (''Executing import script: '' @ import_script) w
      in if \<not> path_exists env import_script
         then (Inl (FileNotFoundError (''Import script not found: '' @ import_script)), w)
         else
           (case (if create_backup m then create_state_backup env m w else (Inr (), w)) of
              (Inl e, w1) \<Rightarrow> (Inl e, w1)
            | (Inr _, w1) \<Rightarrow>
                (case parse_import_script env import_script of
                   Inl e \<Rightarrow> script_failed new_summary e w1
                 | Inr commands \<Rightarrow>
                     if parallel m \<and> 1 < length commands
                     then
                       (case execute_parallel_imports env m commands w1 of
                          (Inl e, w2) \<Rightarrow>
                            script_failed (new_summary\<lparr>total_imports := int (length commands)\<rparr>) e w2
                        | (Inr summary, w2) \<Rightarrow> script_completed summary w2)
                     else
                       (case execute_sequential_imports env m commands w1 of
                          (summary, w2) \<Rightarrow> script_completed summary w2))))"

subsection \<open>Scenarios\<close>

text \<open>
  A script of three import commands in a directory where every \<^verbatim>\<open>chdir\<close> succeeds.
  The second command fails twice and succeeds from its third run on; a fourth command, not
  in the script, times out. The futures complete in the order of submission. The state
  file \<^verbatim>\<open>terraform.tfstate\<close> exists.
\<close>

definition scenario_script :: "string list" where
  "scenario_script =
     [''#!/bin/bash'' @ [CHR 0x0A],
      ''terraform import aws_vpc.a vpc-1'' @ [CHR 0x0A],
      ''terraform import aws_instance.b i-2'' @ [CHR 0x0A],
      ''terraform import aws_s3_bucket.c logs'' @ [CHR 0x0A]]"

definition scenario_env :: environment where
  "scenario_env =
     \<lparr>directory_exists = (\<lambda>d. True),
      path_exists = (\<lambda>p. p = ''import.sh'' \<or> p = ''/work/tf/terraform.tfstate''),
      readlines = (\<lambda>p. Inr scenario_script),
      mkdir = (\<lambda>d. None),
      copy2 = (\<lambda>src dst. None),
      timestamp = ''20240101_000000'',
      subprocess_run =
        (\<lambda>cmd n.
           if cmd = ''terraform import aws_instance.b i-2'' \<and> n < 2
             then Completed 1 [] ''Error: resource not ready''
           else if cmd = ''terraform import aws_db_instance.d db-4'' then Raised (TimeoutExpired cmd)
           else Completed 0 [] []),
      as_completed = (\<lambda>cmds. cmds)\<rparr>"

text \<open>The same, but the copy of a state file fails.\<close>

definition failing_backup_env :: environment where
  "failing_backup_env =
     scenario_env\<lparr>copy2 := (\<lambda>src dst. Some (OSError ''[Errno 28] No space left on device''))\<rparr>"

text \<open>Two workers, at most two retries, no backup.\<close>

definition scenario_manager :: ImportManager where
  "scenario_manager =
     \<lparr>terraform_dir = ''/work/tf'', parallel = True, max_workers = 2, timeout = 300,
      retry_failed = True, max_retries = 2, create_backup = False\<rparr>"

definition initial_world :: world where
  "initial_world = \<lparr>cwd = ''/home/user'', executed = [], copied = [], logged = []\<rparr>"

section \<open>Properties of the resolver\<close>

lemma rbind_ret [simp]: "rbind (ret x) f = f x"
  by (simp add: rbind_def ret_def split: prod.splits)

lemma rbind_raise [simp]: "rbind (raise e) f = raise e"
  by (simp add: rbind_def raise_def)

text \<open>
  Claim C8. A function-call node whose name has the \<^verbatim>\<open>Fn::\<close> prefix and is none of
  the functions \<^verbatim>\<open>_handle_intrinsic_function\<close> knows does not raise: the resolver
  returns the marker string that holds the function name and the raw arguments, and
  writes one warning to the log.
\<close>

theorem unrecognized_function_marker:
  assumes "startswith func_name ''Fn::''"
    and "func_name \<notin> {''Fn::GetAtt'', ''Fn::Join'', ''Fn::Sub'', ''Fn::Select'', ''Fn::Split'',
           ''Fn::Base64'', ''Fn::GetAZs'', ''Fn::FindInMap'', ''Fn::If''}"
  shows "process_value h context (PDict [(func_name, func_args)]) =
           (Inr (PStr (''# TODO: Convert '' @ func_name @ ''('' @ py_str func_args @ '')'')),
            [(WARNING, ''Unsupported intrinsic function: '' @ func_name)])"
proof -
  from assms(1) have "func_name \<noteq> ''Ref''" by auto
  with assms show ?thesis
    by (simp add: process_value.simps handle_intrinsic_function.simps rbind_def logger_def ret_def)
qed

theorem unrecognized_function_marker_witness:
  "process_value \<lparr>parameters = [], mappings = []\<rparr> []
     (PDict [(''Fn::Transform'', PList [PInt 1, PStr ''a''])]) =
     (Inr (PStr ''# TODO: Convert Fn::Transform([1, 'a'])''),
      [(WARNING, ''Unsupported intrinsic function: Fn::Transform'')])"
proof -
  have "py_str (PList [PInt 1, PStr ''a'']) = ''[1, 'a']''"
    by (simp add: py_str_def str_int_def digit_char_def repr_str_def repr_char_def Let_def)
  then show ?thesis
    using unrecognized_function_marker [of "''Fn::Transform''"
        "\<lparr>parameters = [], mappings = []\<rparr>" "[]" "PList [PInt 1, PStr ''a'']"]
    by simp
qed

text \<open>
  Claim C3. A dictionary with exactly one key is a function call only when the key
  starts with \<^verbatim>\<open>Fn::\<close> or is \<^verbatim>\<open>Ref\<close>; then the result is the string of the
  handler. Any other one-key dictionary is data: its value is resolved, and the result
  is a one-key dictionary with the same key and the resolved value (or the exception the
  value raised).
\<close>

theorem single_key_dispatch:
  "process_value h context (PDict [(k, v)]) =
     (if startswith k ''Fn::'' \<or> k = ''Ref''
      then rbind (handle_intrinsic_function h context k v) (\<lambda>s. ret (PStr s))
      else rbind (process_value h context v) (\<lambda>v'. ret (PDict [(k, v')])))"
  by (simp add: process_value.simps [of h "context" "PDict [(k, v)]"] rbind_def ret_def
        split: prod.splits sum.splits)

lemma re_sub_literal:
  "CHR ''$'' \<notin> set lit \<Longrightarrow>
     re_sub repl (lit @ s) = (case re_sub repl s of Inl e \<Rightarrow> Inl e | Inr r \<Rightarrow> Inr (lit @ r))"
  by (induction lit) (auto split: sum.splits)

lemma re_sub_placeholder:
  assumes "name \<noteq> []" and "CHR ''}'' \<notin> set name"
  shows "re_sub repl (''${'' @ name @ ''}'' @ s) =
     (case repl name of
        Inl e \<Rightarrow> Inl e
      | Inr r \<Rightarrow> (case re_sub repl s of Inl e \<Rightarrow> Inl e | Inr rest \<Rightarrow> Inr (r @ rest)))"
proof -
  have tw: "takeWhile (\<lambda>x. x \<noteq> CHR ''}'') (name @ CHR ''}'' # s) = name"
    using assms(2) by (induction name) auto
  have dw: "dropWhile (\<lambda>x. x \<noteq> CHR ''}'') (name @ CHR ''}'' # s) = CHR ''}'' # s"
    using assms(2) by (induction name) auto
  show ?thesis using assms(1) by (cases "repl name") (simp_all add: tw dw)
qed

lemma re_sub_segments:
  assumes "\<forall>(lit, name) \<in> set segs. CHR ''$'' \<notin> set lit \<and> name \<noteq> [] \<and> CHR ''}'' \<notin> set name"
    and "CHR ''$'' \<notin> set tail"
  shows "re_sub repl (sub_source segs tail) = sub_expected repl segs tail"
  using assms
proof (induction segs)
  case Nil
  then show ?case using re_sub_literal [of tail repl "[]"] by simp
next
  case (Cons seg segs)
  obtain lit name where seg: "seg = (lit, name)" by (cases seg)
  from Cons.prems seg have lit: "CHR ''$'' \<notin> set lit" and name: "name \<noteq> []" "CHR ''}'' \<notin> set name"
    by auto
  from Cons have IH: "re_sub repl (sub_source segs tail) = sub_expected repl segs tail" by simp
  show ?case
    using re_sub_literal [OF lit, of repl "''${'' @ name @ ''}'' @ sub_source segs tail"]
      re_sub_placeholder [OF name, of repl "sub_source segs tail"] IH
    by (simp add: seg split: sum.splits)
qed

lemma replace_var_priority:
  assumes "name \<noteq> ''AWS::Partition''"
  shows "replace_var h c substitutions name = sub_priority h c substitutions name"
proof -
  have pseudo: "(if startswith name ''AWS::'' then map_of sub_pseudo_params name else None) =
      map_of environment_pseudo_values name"
    using assms by (auto simp: sub_pseudo_params_def environment_pseudo_values_def)
  have mem: "\<And>d :: pydict. dict_in name d = (name \<in> fst ` set d)"
    by (auto simp: dict_in_def map_of_eq_None_iff)
  show ?thesis
    unfolding replace_var_def sub_priority_def pseudo mem
    by (auto split: option.splits sum.splits)
qed

lemma sub_expected_cong:
  assumes "\<forall>(lit, name) \<in> set segs. f name = g name"
  shows "sub_expected f segs tail = sub_expected g segs tail"
  using assms by (induction segs) (auto split: sum.splits)

text \<open>
  Where no placeholder is \<^verbatim>\<open>${AWS::Partition}\<close>: for a template string made of literal
  text without \<^verbatim>\<open>$\<close> and placeholders \<^verbatim>\<open>${name}\<close>, \<^verbatim>\<open>_handle_sub\<close> replaces each
  placeholder by the priority of the specification (explicit substitution map, then
  pseudo-value, then parameter, then resource of the same template, else verbatim), in
  both the two-element form and the bare string form, and puts the result in double
  quotes.
\<close>

lemma sub_placeholder_priority:
  assumes "\<forall>(lit, name) \<in> set segs. CHR ''$'' \<notin> set lit \<and> name \<noteq> [] \<and> CHR ''}'' \<notin> set name
             \<and> name \<noteq> ''AWS::Partition''"
    and "CHR ''$'' \<notin> set tail"
    and "process_items h c vars = (Inr substitutions, l)"
  shows "handle_sub h c (PList [PStr (sub_source segs tail), PDict vars]) =
           (map_sum id dquote (sub_expected (sub_priority h c substitutions) segs tail), l)
       \<and> handle_sub h c (PStr (sub_source segs tail)) =
           (map_sum id dquote (sub_expected (sub_priority h c []) segs tail), [])"
proof -
  have segs: "\<forall>(lit, name) \<in> set segs. CHR ''$'' \<notin> set lit \<and> name \<noteq> [] \<and> CHR ''}'' \<notin> set name"
    using assms(1) by auto
  have repl: "\<And>s. sub_expected (replace_var h c s) segs tail = sub_expected (sub_priority h c s) segs tail"
    using assms(1) by (intro sub_expected_cong) (auto simp: replace_var_priority)
  have tmpl: "\<And>s. sub_template h c s (PStr (sub_source segs tail)) =
      map_sum id dquote (sub_expected (sub_priority h c s) segs tail)"
    using re_sub_segments [OF segs assms(2)]
    by (simp add: sub_template_def repl split: sum.splits)
  show ?thesis
    using assms(3) by (simp add: handle_sub.simps rbind_def lift_def tmpl split: prod.splits)
qed

lemma sub_placeholder_priority_example:
  "handle_sub
     \<lparr>parameters = [(''Env'', PDict []), (''Name'', PDict [])], mappings = []\<rparr>
     [(''resources'', [(''MyVPC'', PDict [(''Type'', PStr ''AWS::EC2::VPC'')]),
                       (''Name'', PDict [(''Type'', PStr ''AWS::S3::Bucket'')])])]
     (PList [PStr ''${Env}-${AWS::Region}-${Name}-${MyVPC}-${Other}.'', PDict [(''Env'', PStr ''x'')]]) =
   (Inr (dquote ''${x}-${data.aws_region.current.name}-${var.name}-${aws_vpc.myvpc.id}-${Other}.''), [])"
proof -
  let ?h = "\<lparr>parameters = [(''Env'', PDict []), (''Name'', PDict [])], mappings = []\<rparr>"
  let ?c = "[(''resources'', [(''MyVPC'', PDict [(''Type'', PStr ''AWS::EC2::VPC'')]),
                       (''Name'', PDict [(''Type'', PStr ''AWS::S3::Bucket'')])])]"
  let ?segs = "[([], ''Env''), (''-'', ''AWS::Region''), (''-'', ''Name''), (''-'', ''MyVPC''), (''-'', ''Other'')]"
  have items: "process_items ?h ?c [(''Env'', PStr ''x'')] = (Inr [(''Env'', PStr ''x'')], [])"
    by (simp add: process_value.simps ret_def rbind_def)
  have ref: "handle_ref ?h ?c (PStr ''MyVPC'') = Inr ''aws_vpc.myvpc.id''"
    by (simp add: handle_ref_def unhashable_def dict_in_def context_resources_def ref_resource_def
          py_get_def lower_def lower_char_def)
  have low: "lower ''Name'' = ''name''"
    by (simp add: lower_def lower_char_def)
  show ?thesis
    using sub_placeholder_priority [of ?segs "''.''" ?h ?c "[(''Env'', PStr ''x'')]" "[(''Env'', PStr ''x'')]" "[]"] items
    by (simp add: sub_priority_def environment_pseudo_values_def py_str_def context_resources_def ref low)
qed

text \<open>
  Claim C2, at the placeholder \<^verbatim>\<open>${AWS::Partition}\<close>. The partition is an environment
  pseudo-value of the specification, and \<^verbatim>\<open>_handle_ref\<close> resolves it; the table of
  \<^verbatim>\<open>_handle_sub\<close> does not hold it, so the placeholder is left verbatim where the
  priority of the specification gives the partition. (The same holds for
  \<^verbatim>\<open>${AWS::StackId}\<close>, which \<^verbatim>\<open>_handle_ref\<close> resolves as well.)
\<close>

theorem sub_partition_left_verbatim:
  "handle_sub \<lparr>parameters = [], mappings = []\<rparr> [] (PStr ''arn:${AWS::Partition}:s3:::logs'') =
     (Inr (dquote ''arn:${AWS::Partition}:s3:::logs''), [])
   \<and> sub_expected (sub_priority \<lparr>parameters = [], mappings = []\<rparr> [] [])
        [(''arn:'', ''AWS::Partition'')] '':s3:::logs'' =
     Inr ''arn:${data.aws_partition.current.partition}:s3:::logs''
   \<and> sub_source [(''arn:'', ''AWS::Partition'')] '':s3:::logs'' = ''arn:${AWS::Partition}:s3:::logs''
   \<and> handle_ref \<lparr>parameters = [], mappings = []\<rparr> [] (PStr ''AWS::Partition'') =
     Inr ''data.aws_partition.current.partition''
   \<and> handle_sub \<lparr>parameters = [], mappings = []\<rparr> [] (PStr ''${AWS::StackId}'') =
     (Inr (dquote ''${AWS::StackId}''), [])
   \<and> handle_ref \<lparr>parameters = [], mappings = []\<rparr> [] (PStr ''AWS::StackId'') = Inr ''var.stack_id''"
  by code_simp


lemma find_in_map_static_known:
  assumes "map_of (mappings h) m \<noteq> None"
  shows "except_KeyError_TypeError (lift (find_in_map_static h (PStr m) p1 p2)) =
     (Inr (map_option (\<lambda>v. dquote (py_str v)) (known_value h m p1 p2)), [])"
proof (cases "\<exists>t s. p1 = PStr t \<and> p2 = PStr s")
  case False
  then have "find_in_map_static h (PStr m) p1 p2 = Inr None" "known_value h m p1 p2 = None"
    by (auto simp: find_in_map_static_def known_value_def split: pyval.splits)
  then show ?thesis by (simp add: except_KeyError_TypeError_def lift_def)
next
  case True
  then obtain t s where p: "p1 = PStr t" "p2 = PStr s" by blast
  from assms obtain table where tb: "map_of (mappings h) m = Some table" by blast
  show ?thesis
  proof (cases "\<exists>tbl row. table = PDict tbl \<and> map_of tbl t = Some (PDict row)")
    case True
    then obtain tbl row where r: "table = PDict tbl" "map_of tbl t = Some (PDict row)" by blast
    show ?thesis
      by (cases "map_of row s")
        (simp_all add: p tb r find_in_map_static_def known_value_def py_getitem_def
          except_KeyError_TypeError_def lift_def)
  next
    case False
    have kv: "known_value h m p1 p2 = None"
      using False by (auto simp: known_value_def p tb split: pyval.splits option.splits)
    have "\<exists>e. find_in_map_static h (PStr m) p1 p2 = Inl e \<and> (\<exists>x. e = KeyError x \<or> e = TypeError x)"
      using False
      by (cases table; cases "map_of (case table of PDict d \<Rightarrow> d | _ \<Rightarrow> []) t")
         (auto simp: find_in_map_static_def p tb py_getitem_def split: pyval.splits option.splits)
    then show ?thesis
      by (auto simp: kv except_KeyError_TypeError_def lift_def)
  qed
qed

text \<open>
  Claim C9. For a map lookup with a string map name whose two keys resolve without an
  exception: when the table is in the mappings and both resolved keys are strings
  present in it, the result is the value found, in double quotes; otherwise the result
  is the lookup expression on the local value.
\<close>

theorem find_in_map_static_or_local:
  assumes "process_value h c top_level_key = (Inr p1, l1)"
    and "process_value h c second_level_key = (Inr p2, l2)"
  shows "fst (handle_find_in_map h c (PList [PStr m, top_level_key, second_level_key])) =
     (case known_value h m p1 p2 of
        Some v \<Rightarrow> Inr (dquote (py_str v))
      | None \<Rightarrow> Inr (''local.'' @ lower m @ ''['' @ py_str p1 @ '']['' @ py_str p2 @ '']''))"
proof (cases "map_of (mappings h) m")
  case None
  then have "known_value h m p1 p2 = None"
    by (simp add: known_value_def split: pyval.splits)
  with None assms show ?thesis
    by (simp add: handle_find_in_map.simps unhashable_def py_in_def dict_in_def rbind_def ret_def
          lift_def find_in_map_local_def)
next
  case (Some table)
  then have k: "map_of (mappings h) m \<noteq> None" by simp
  have st: "except_KeyError_TypeError
      (rbind (process_value h c top_level_key) (\<lambda>pt.
       rbind (process_value h c second_level_key) (\<lambda>ps.
       lift (find_in_map_static h (PStr m) pt ps)))) =
     (Inr (map_option (\<lambda>v. dquote (py_str v)) (known_value h m p1 p2)), l1 @ l2)"
    using find_in_map_static_known [OF k, of p1 p2] assms
    by (auto simp: rbind_def lift_def except_KeyError_TypeError_def split: sum.splits error.splits)
  have eq: "handle_find_in_map h c (PList [PStr m, top_level_key, second_level_key]) =
      rbind
        (except_KeyError_TypeError
          (rbind (process_value h c top_level_key) (\<lambda>pt.
           rbind (process_value h c second_level_key) (\<lambda>ps.
           lift (find_in_map_static h (PStr m) pt ps)))))
        (\<lambda>static.
           case static of
             Some r \<Rightarrow> ret r
           | None \<Rightarrow>
               rbind (process_value h c top_level_key) (\<lambda>pt.
               rbind (process_value h c second_level_key) (\<lambda>ps.
               lift (find_in_map_local (PStr m) pt ps))))"
    using k by (simp add: handle_find_in_map.simps unhashable_def py_in_def dict_in_def)
  show ?thesis
    unfolding eq st using assms
    by (cases "known_value h m p1 p2")
      (simp_all add: rbind_def ret_def lift_def find_in_map_local_def)
qed

theorem find_in_map_static_or_local_witness:
  "fst (handle_find_in_map
     \<lparr>parameters = [], mappings = [(''AmiMap'', PDict [(''us-east-1'', PDict [(''AMI'', PStr ''ami-123'')])])]\<rparr>
     [] (PList [PStr ''AmiMap'', PStr ''us-east-1'', PStr ''AMI''])) = Inr (dquote ''ami-123'')
   \<and> fst (handle_find_in_map
     \<lparr>parameters = [], mappings = [(''AmiMap'', PDict [(''us-east-1'', PDict [(''AMI'', PStr ''ami-123'')])])]\<rparr>
     [] (PList [PStr ''AmiMap'', PDict [(''Ref'', PStr ''AWS::Region'')], PStr ''AMI''])) =
       Inr ''local.amimap[data.aws_region.current.name][AMI]''"
proof -
  let ?h = "\<lparr>parameters = [], mappings = [(''AmiMap'', PDict [(''us-east-1'', PDict [(''AMI'', PStr ''ami-123'')])])]\<rparr>"
  have s: "\<And>x. process_value ?h [] (PStr x) = (Inr (PStr x), [])"
    by (simp add: process_value.simps ret_def)
  have r: "process_value ?h [] (PDict [(''Ref'', PStr ''AWS::Region'')]) =
      (Inr (PStr ''data.aws_region.current.name''), [])"
    by (simp add: process_value.simps handle_intrinsic_function.simps handle_ref_def unhashable_def
          dict_in_def context_resources_def ref_pseudo_params_def lift_def rbind_def ret_def)
  have low: "lower ''AmiMap'' = ''amimap''"
    by (simp add: lower_def lower_char_def)
  show ?thesis
    using find_in_map_static_or_local [OF s s, where m = "''AmiMap''"]
      find_in_map_static_or_local [OF r s, where m = "''AmiMap''"]
    by (simp add: known_value_def py_str_def low)
qed

section \<open>Properties of the template converter\<close>









lemma map_of_dict_set: "map_of (dict_set d k v) k' = (if k' = k then Some v else map_of d k')"
  by (induction d) auto











lemma warnings_before_resources: "warnings (before_resources t vars) = []"
  by (simp add: before_resources_def new_result_def Let_def)





text \<open>
  Claim C4, as amended. A resource whose type is set and has no Terraform mapping leaves
  \<^verbatim>\<open>terraform_resources\<close> as it was, adds exactly one warning, which names the
  resource's type (not its logical name), and the loop goes on with the other resources.
\<close>

theorem unsupported_type_warning:
  assumes "py_get resource_config ''Type'' PNone = Inr cf_type"
    and "truthy cf_type"
    and "get_terraform_type cf_type = Inr None"
  shows "convert_resources eng h c ((logical_id, resource_config) # rs) (result, tr, log) =
         convert_resources eng h c rs
           (result\<lparr>warnings := warnings result @ [''Unsupported resource type: '' @ py_str cf_type]\<rparr>,
            tr,
            log @ [(WARNING, ''No Terraform mapping for CloudFormation type: '' @ py_str cf_type)])"
proof -
  have "convert_resource eng logical_id resource_config h c =
      (Inr (Some \<lparr>c_resources = [], c_import_commands = [],
                  c_warnings = [''Unsupported resource type: '' @ py_str cf_type]\<rparr>),
       [(WARNING, ''No Terraform mapping for CloudFormation type: '' @ py_str cf_type)])"
    using assms by (simp add: convert_resource_def lift_def rbind_def logger_def ret_def)
  then show ?thesis
    by (simp add: resource_converted_def dict_update_def)
qed

theorem unsupported_type_warning_witness:
  "convert_resources \<lparr>preserve_names = True, handle_functions = True\<rparr> \<lparr>parameters = [], mappings = []\<rparr> []
     [(''MyThing'', PDict [(''Type'', PStr ''Custom::Thing''), (''Properties'', PDict [])])]
     (new_result, [], []) =
   (new_result\<lparr>warnings := [''Unsupported resource type: Custom::Thing'']\<rparr>, [],
    [(WARNING, ''No Terraform mapping for CloudFormation type: Custom::Thing'')])"
proof -
  let ?cfg = "PDict [(''Type'', PStr ''Custom::Thing''), (''Properties'', PDict [])]"
  have a: "py_get ?cfg ''Type'' PNone = Inr (PStr ''Custom::Thing'')" by code_simp
  have b: "truthy (PStr ''Custom::Thing'')" by code_simp
  have c: "get_terraform_type (PStr ''Custom::Thing'') = Inr None" by code_simp
  show ?thesis
    using unsupported_type_warning [OF a b c, where rs = "[]" and result = new_result and tr = "[]"
        and log = "[]" and logical_id = "''MyThing''"
        and eng = "\<lparr>preserve_names = True, handle_functions = True\<rparr>"
        and h = "\<lparr>parameters = [], mappings = []\<rparr>" and c = "[]"]
    by (simp add: py_str_def new_result_def)
qed

text \<open>
  The warning recorded for a resource \<^verbatim>\<open>MyThing\<close> of the unmapped type
  \<^verbatim>\<open>Custom::Thing\<close> holds the type and not the logical name; a resource with no
  \<^verbatim>\<open>Type\<close> at all is skipped with no warning.
\<close>

theorem unsupported_type_warning_names_type:
  "warnings (fst (convert_template \<lparr>preserve_names = True, handle_functions = True\<rparr>
      \<lparr>Parameters = [], Mappings = [], Conditions = [],
       Resources = [(''MyThing'', PDict [(''Type'', PStr ''Custom::Thing''), (''Properties'', PDict [])])],
       Outputs = []\<rparr>)) = [''Unsupported resource type: Custom::Thing'']
   \<and> \<not> is_substring ''MyThing'' ''Unsupported resource type: Custom::Thing''
   \<and> warnings (fst (convert_template \<lparr>preserve_names = True, handle_functions = True\<rparr>
      \<lparr>Parameters = [], Mappings = [], Conditions = [],
       Resources = [(''MyThing'', PDict [(''Properties'', PDict [])])],
       Outputs = []\<rparr>)) = []"
  by code_simp

text \<open>
  A resource with no \<^verbatim>\<open>Type\<close>, or an empty one, is skipped: the loop goes on with the
  state as it was.
\<close>

lemma missing_type_skipped:
  assumes "py_get resource_config ''Type'' PNone = Inr cf_type" and "\<not> truthy cf_type"
  shows "convert_resources eng h c ((logical_id, resource_config) # rs) (result, tr, log) =
         convert_resources eng h c rs (result, tr, log)"
  using assms
  by (simp add: convert_resource_def lift_def rbind_def ret_def resource_converted_def)

lemma lower_char_not_upper: "lower_char x \<notin> set ''ABCDEFGHIJKLMNOPQRSTUVWXYZ''"
  unfolding lower_char_def by (auto split: option.splits if_splits)

lemma lower_neq_upper_head:
  assumes "k \<in> set ''ABCDEFGHIJKLMNOPQRSTUVWXYZ''"
  shows "lower p \<noteq> k # ks"
proof
  assume "lower p = k # ks"
  then obtain x xs where "p = x # xs" "lower_char x = k"
    by (cases p) (auto simp: lower_def)
  with assms lower_char_not_upper [of x] show False by simp
qed

lemma property_targets_lower:
  assumes "map_of PROPERTY_MAPPINGS terraform_type = Some m" and "map_of m cf_prop = Some q"
  shows "q = [] \<or> hd q \<notin> set ''ABCDEFGHIJKLMNOPQRSTUVWXYZ''"
proof -
  have all: "\<forall>(tt, m) \<in> set PROPERTY_MAPPINGS. \<forall>(k, q) \<in> set m.
      q = [] \<or> hd q \<notin> set ''ABCDEFGHIJKLMNOPQRSTUVWXYZ''"
    by (simp add: PROPERTY_MAPPINGS_def)
  from assms(1) have "(terraform_type, m) \<in> set PROPERTY_MAPPINGS" by (rule map_of_SomeD)
  moreover from assms(2) have "(cf_prop, q) \<in> set m" by (rule map_of_SomeD)
  ultimately show ?thesis using all by blast
qed

lemma map_property_name_not_upper:
  assumes "k \<in> set ''ABCDEFGHIJKLMNOPQRSTUVWXYZ''"
  shows "map_property_name
           (case map_of PROPERTY_MAPPINGS terraform_type of None \<Rightarrow> [] | Some m \<Rightarrow> m) p \<noteq> k # ks"
proof (cases "map_of PROPERTY_MAPPINGS terraform_type")
  case None
  then show ?thesis
    using lower_neq_upper_head [OF assms] by (simp add: map_property_name_def)
next
  case (Some m)
  show ?thesis
  proof (cases "map_of m p")
    case None
    then show ?thesis
      using Some lower_neq_upper_head [OF assms] by (simp add: map_property_name_def)
  next
    case (Some q)
    from property_targets_lower [OF \<open>map_of PROPERTY_MAPPINGS terraform_type = Some m\<close> Some] assms
    have "q \<noteq> k # ks" by auto
    then show ?thesis
      using Some \<open>map_of PROPERTY_MAPPINGS terraform_type = Some m\<close>
      by (simp add: map_property_name_def)
  qed
qed

lemma ref_undeclared:
  assumes "\<not> dict_in n (parameters h)" and "map_of (context_resources c) n = None"
    and "map_of ref_pseudo_params n = None"
  shows "handle_ref h c (PStr n) = Inr (''# TODO: Resolve reference to '' @ n)"
  using assms by (simp add: handle_ref_def unhashable_def)

lemma process_items_keys:
  "process_items h c d = (Inr d', l) \<Longrightarrow> map fst d' = map fst d"
proof (induction d arbitrary: d' l)
  case Nil
  then show ?case by (simp add: ret_def)
next
  case (Cons x d)
  obtain k v where x: "x = (k, v)" by (cases x)
  from Cons.prems obtain v' lv d2 l2 where
      "process_value h c v = (Inr v', lv)" "process_items h c d = (Inr d2, l2)" "d' = (k, v') # d2"
    by (auto simp: x rbind_def ret_def split: prod.splits sum.splits)
  with Cons.IH [of d2 l2] show ?case by (simp add: x)
qed

lemma process_items_lookup:
  "process_items h c d = (Inr d', l) \<Longrightarrow> map_of d k = Some x \<Longrightarrow>
     \<exists>x' lx. map_of d' k = Some x' \<and> process_value h c x = (Inr x', lx)"
proof (induction d arbitrary: d' l)
  case Nil
  then show ?case by simp
next
  case (Cons y d)
  obtain k0 v where y: "y = (k0, v)" by (cases y)
  from Cons.prems(1) obtain v' lv d2 l2 where
      pv: "process_value h c v = (Inr v', lv)" and pi: "process_items h c d = (Inr d2, l2)"
      and d': "d' = (k0, v') # d2"
    by (auto simp: y rbind_def ret_def split: prod.splits sum.splits)
  show ?case
  proof (cases "k0 = k")
    case True
    with Cons.prems(2) have "x = v" by (simp add: y)
    with pv True show ?thesis by (auto simp: d')
  next
    case False
    with Cons.prems(2) have "map_of d k = Some x" by (simp add: y)
    from Cons.IH [OF pi this] False show ?thesis by (auto simp: d')
  qed
qed

lemma process_items_split:
  "process_items h c (d1 @ (p, v) # d2) = (Inr d', l) \<Longrightarrow>
     \<exists>d1' v' d2' lv. d' = d1' @ (p, v') # d2' \<and> map fst d1' = map fst d1 \<and> map fst d2' = map fst d2
        \<and> process_value h c v = (Inr v', lv)"
proof (induction d1 arbitrary: d' l)
  case Nil
  from Nil obtain v' lv d2' l2 where
      pv: "process_value h c v = (Inr v', lv)" and pi: "process_items h c d2 = (Inr d2', l2)"
      and d': "d' = (p, v') # d2'"
    by (auto simp: rbind_def ret_def split: prod.splits sum.splits)
  from process_items_keys [OF pi] pv d' show ?case by auto
next
  case (Cons y d1)
  obtain k0 v0 where y: "y = (k0, v0)" by (cases y)
  from Cons.prems obtain v0' lv0 dd ld where
      pi: "process_items h c (d1 @ (p, v) # d2) = (Inr dd, ld)" and d': "d' = (k0, v0') # dd"
    by (auto simp: y rbind_def ret_def split: prod.splits sum.splits)
  from Cons.IH [OF pi] obtain d1' v' d2' lv where
      "dd = d1' @ (p, v') # d2'" "map fst d1' = map fst d1" "map fst d2' = map fst d2"
      "process_value h c v = (Inr v', lv)"
    by blast
  then have "d' = ((k0, v0') # d1') @ (p, v') # d2' \<and> map fst ((k0, v0') # d1') = map fst (y # d1)
      \<and> map fst d2' = map fst d2 \<and> process_value h c v = (Inr v', lv)"
    by (simp add: d' y)
  then show ?case by blast
qed

lemma process_list_nth:
  "process_list h c xs = (Inr ys, l) \<Longrightarrow>
     length ys = length xs \<and> (\<forall>i < length xs. \<exists>li. process_value h c (xs ! i) = (Inr (ys ! i), li))"
proof (induction xs arbitrary: ys l)
  case Nil
  then show ?case by (simp add: ret_def)
next
  case (Cons x xs)
  from Cons.prems obtain y ly ys2 l2 where
      pv: "process_value h c x = (Inr y, ly)" and pl: "process_list h c xs = (Inr ys2, l2)"
      and ys: "ys = y # ys2"
    by (auto simp: rbind_def ret_def split: prod.splits sum.splits)
  from Cons.IH [OF pl] pv show ?case
    by (auto simp: ys nth_Cons split: nat.splits)
qed

lemma is_call_keys: "map fst d' = map fst d \<Longrightarrow> is_call (PDict d') = is_call (PDict d)"
proof -
  assume a: "map fst d' = map fst d"
  show ?thesis
  proof (cases d)
    case Nil
    with a show ?thesis by simp
  next
    case (Cons x xs)
    note dx = Cons
    obtain k v where x: "x = (k, v)" by (cases x)
    from a dx obtain x' xs' where d': "d' = x' # xs'" by (cases d') auto
    obtain k' v' where x': "x' = (k', v')" by (cases x')
    from a dx d' have kk: "k' = k" and rest: "map fst xs' = map fst xs" by (auto simp: x x')
    show ?thesis
    proof (cases xs)
      case Nil
      with rest have "xs' = []" by simp
      with Nil show ?thesis by (simp add: dx d' x x' kk)
    next
      case (Cons z zs)
      with rest obtain z' zs' where "xs' = z' # zs'" by (cases xs') auto
      with Cons show ?thesis by (simp add: dx d' x x')
    qed
  qed
qed

lemma process_value_data:
  assumes "\<not> is_call (PDict d)"
  shows "process_value h c (PDict d) = rbind (process_items h c d) (\<lambda>d'. ret (PDict d'))"
proof (cases d)
  case Nil
  then show ?thesis by (subst process_value.simps) simp
next
  case (Cons x xs)
  obtain k v where x: "x = (k, v)" by (cases x)
  show ?thesis
  proof (cases xs)
    case Nil
    with assms Cons x show ?thesis by (subst process_value.simps) simp
  next
    case (Cons z zs)
    with \<open>d = x # xs\<close> x show ?thesis by (subst process_value.simps) simp
  qed
qed

lemma process_value_at:
  assumes "handle_ref h c (PStr n) = Inr r"
  shows "process_value h c v = (Inr v', l) \<Longrightarrow> value_at v path = Some (PDict [(''Ref'', PStr n)]) \<Longrightarrow>
     value_at v' path = Some (PStr r)"
proof (induction path arbitrary: v v' l)
  case Nil
  then have "v = PDict [(''Ref'', PStr n)]" by simp
  with Nil.prems(1) assms show ?case
    by (simp add: process_value.simps [of h c "PDict [(''Ref'', PStr n)]"]
          handle_intrinsic_function.simps rbind_def ret_def lift_def)
next
  case (Cons s path)
  show ?case
  proof (cases s)
    case (Key k)
    from Cons.prems(2) Key obtain d where v: "v = PDict d"
      by (cases v) simp_all
    from Cons.prems(2) Key v have nc: "\<not> is_call (PDict d)"
      by (auto split: if_splits)
    from Cons.prems(2) Key v nc obtain x where x: "map_of d k = Some x"
        and at: "value_at x path = Some (PDict [(''Ref'', PStr n)])"
      by (auto split: option.splits)
    from Cons.prems(1) obtain d' where pi: "process_items h c d = (Inr d', l)" and v': "v' = PDict d'"
      by (auto simp: v process_value_data [OF nc] rbind_def ret_def split: prod.splits sum.splits)
    from process_items_lookup [OF pi x] obtain x' lx where
        x': "map_of d' k = Some x'" and px: "process_value h c x = (Inr x', lx)"
      by blast
    have nc': "\<not> is_call (PDict d')"
      using is_call_keys [OF process_items_keys [OF pi]] nc by simp
    from Cons.IH [OF px at] show ?thesis
      using nc' by (simp add: v' Key x')
  next
    case (Index i)
    from Cons.prems(2) Index obtain xs where v: "v = PList xs"
      by (cases v) simp_all
    from Cons.prems(2) Index v have i: "i < length xs"
        and at: "value_at (xs ! i) path = Some (PDict [(''Ref'', PStr n)])"
      by (auto split: if_splits)
    from Cons.prems(1) obtain ys where pl: "process_list h c xs = (Inr ys, l)" and v': "v' = PList ys"
      by (auto simp: v process_value.simps [of h c "PList xs"] rbind_def ret_def
            split: prod.splits sum.splits)
    from process_list_nth [OF pl] i obtain li where
        len: "length ys = length xs" and px: "process_value h c (xs ! i) = (Inr (ys ! i), li)"
      by blast
    from Cons.IH [OF px at] show ?thesis
      using i len by (simp add: v' Index)
  qed
qed

lemma map_of_fold_dict_set:
  "map_of (fold (\<lambda>(k, v) acc. dict_set acc (f k) v) d acc) q =
     (case map_of (rev (map (\<lambda>(k, v). (f k, v)) d)) q of
        Some y \<Rightarrow> Some y
      | None \<Rightarrow> map_of acc q)"
proof (induction d arbitrary: acc)
  case Nil
  show ?case by simp
next
  case (Cons x d)
  obtain k v where x: "x = (k, v)" by (cases x)
  show ?case
    by (simp add: x Cons.IH map_of_dict_set map_add_def split: option.splits)
qed

lemma map_of_mapped_absent:
  assumes "\<forall>k \<in> fst ` set d. f k \<noteq> q"
  shows "map_of (rev (map (\<lambda>(k, v). (f k, v)) d)) q = None"
  using assms by (auto simp: map_of_eq_None_iff)

lemma mapped_property_lookup:
  assumes "\<forall>k \<in> fst ` set d2. f k \<noteq> f p"
  shows "map_of (fold (\<lambda>(k, v) acc. dict_set acc (f k) v) (d1 @ (p, x) # d2) []) (f p) = Some x"
  using map_of_mapped_absent [OF assms]
  by (simp add: map_of_fold_dict_set map_of_dict_set map_add_def split: option.splits)

lemma mapped_property_absent:
  assumes "\<forall>k \<in> fst ` set d. f k \<noteq> q"
  shows "map_of (fold (\<lambda>(k, v) acc. dict_set acc (f k) v) d []) q = None"
  using map_of_mapped_absent [OF assms] by (simp add: map_of_fold_dict_set)

lemma transformations_lower_keys:
  assumes "map_of D ''IpProtocol'' = None" "map_of D ''FromPort'' = None" "map_of D ''ToPort'' = None"
    "map_of D ''CidrIp'' = None" "map_of D ''BucketEncryption'' = None"
    "map_of D ''VersioningConfiguration'' = None" "map_of D ''AssumeRolePolicyDocument'' = None"
    "map_of D ''ManagedPolicyArns'' = None" "map_of D ''FunctionName'' = None"
    "map_of D ''Runtime'' = None" "map_of D ''Handler'' = None" "map_of D ''Code'' = None"
  shows "apply_resource_transformations cf_type (PDict D) logical_id =
     Inr (PDict (if cf_type \<in> set [''AWS::EC2::SecurityGroupIngress'', ''AWS::EC2::SecurityGroupEgress'']
                 then dict_set D ''type''
                        (PStr (if is_substring ''Ingress'' cf_type then ''ingress'' else ''egress''))
                 else D))"
  using assms
  by (simp add: apply_resource_transformations_def transform_security_group_rule_def
        transform_s3_bucket_def s3_bucket_encryption_def s3_bucket_versioning_def
        transform_iam_role_def transform_lambda_function_def dict_copy_def move_key_def Let_def
        map_of_dict_set)

lemma is_call_lookup:
  assumes "is_call (PDict D)" and "map_of D q = Some y"
  shows "\<exists>u us. q = u # us \<and> u \<in> set ''ABCDEFGHIJKLMNOPQRSTUVWXYZ''"
proof -
  from assms(1) obtain k v where D: "D = [(k, v)]" and k: "startswith k ''Fn::'' \<or> k = ''Ref''"
    by (cases "PDict D" rule: is_call.cases) auto
  from assms(2) D have "q = k" by (auto split: if_splits)
  with k show ?thesis by (cases k) auto
qed

text \<open>
  Claim C5, as amended. In a template whose only resource has a mapped type (not a nested
  stack) and whose properties hold \<^verbatim>\<open>{Ref: n}\<close> at a data position below the property
  \<^verbatim>\<open>p\<close>, where \<^verbatim>\<open>n\<close> is no parameter, not the resource and no pseudo parameter: when
  the parameters are converted, functions are handled, the properties resolve without an
  exception and no later property is stored under the Terraform name of \<^verbatim>\<open>p\<close>, the
  converted resource holds the marker string with \<^verbatim>\<open>n\<close> at the same position below
  the Terraform name of \<^verbatim>\<open>p\<close>, and the result holds no warning.
\<close>

theorem undeclared_ref_marker:
  assumes res: "Resources t = [(logical_id, PDict cfg)]"
    and ty: "map_of cfg ''Type'' = Some (PStr cf_type)"
    and props: "map_of cfg ''Properties'' = Some (PDict (d1 @ (p, v) # d2))"
    and data: "\<not> is_call (PDict (d1 @ (p, v) # d2))"
    and later: "\<forall>k \<in> fst ` set d2.
                  terraform_property terraform_type k \<noteq> terraform_property terraform_type p"
    and at: "value_at v path = Some (PDict [(''Ref'', PStr n)])"
    and tt: "map_of RESOURCE_TYPE_MAPPING cf_type = Some terraform_type"
    and nostack: "cf_type \<noteq> ''AWS::CloudFormation::Stack''"
    and hf: "handle_functions eng"
    and n: "\<not> dict_in n (Parameters t)" "n \<noteq> logical_id" "map_of ref_pseudo_params n = None"
    and vars: "variables_phase t = Inr vars"
    and ok: "fst (process_value (template_handler t) (template_context t) (PDict (d1 @ (p, v) # d2))) =
               Inr processed"
    and sg: "cf_type \<in> {''AWS::EC2::SecurityGroupIngress'', ''AWS::EC2::SecurityGroupEgress''} \<Longrightarrow>
               terraform_property terraform_type p \<noteq> ''type''"
  shows "\<exists>props.
           map_of (terraform_config (fst (convert_template eng t))) ''resource'' =
             Some (PDict [(terraform_type,
                     PDict [(if preserve_names eng then lower logical_id
                             else generate_resource_name logical_id, PDict props)])])
         \<and> value_at (PDict props) (Key (terraform_property terraform_type p) # path) =
             Some (PStr (''# TODO: Resolve reference to '' @ n))
         \<and> warnings (fst (convert_template eng t)) = []"
proof -
  let ?h = "template_handler t" and ?c = "template_context t"
  let ?f = "terraform_property terraform_type"
  let ?name = "if preserve_names eng then lower logical_id else generate_resource_name logical_id"
  let ?log0 = "[(INFO, ''Converting CloudFormation template to Terraform'')]"
  let ?d = "d1 @ (p, v) # d2"
  define marker where "marker = ''# TODO: Resolve reference to '' @ n"
  have ref: "handle_ref ?h ?c (PStr n) = Inr marker"
    unfolding marker_def
    using n by (intro ref_undeclared) (simp_all add: template_handler_def template_context_def
        context_resources_def res)
  obtain lp where pv: "process_value ?h ?c (PDict ?d) = (Inr processed, lp)"
    using ok by (cases "process_value ?h ?c (PDict ?d)") simp
  then obtain d' where pi: "process_items ?h ?c ?d = (Inr d', lp)" and pd: "processed = PDict d'"
    by (auto simp: process_value_data [OF data] rbind_def ret_def split: prod.splits sum.splits)
  from process_items_split [OF pi] obtain d1' v' d2' lv where
      d': "d' = d1' @ (p, v') # d2'" and k2: "map fst d2' = map fst d2"
      and pvv: "process_value ?h ?c v = (Inr v', lv)"
    by blast
  have atv: "value_at v' path = Some (PStr marker)"
    by (rule process_value_at [OF ref pvv at])
  have ne: "cf_type \<noteq> []"
    using tt by (auto simp: RESOURCE_TYPE_MAPPING_def)
  have gt: "get_terraform_type (PStr cf_type) = Inr (Some terraform_type)"
    using tt by (simp add: get_terraform_type_def unhashable_def)
  define D where "D = fold (\<lambda>(k, x) acc. dict_set acc (?f k) x) d' []"
  have mp: "map_properties (PStr cf_type) processed = Inr (PDict D)"
    by (simp add: map_properties_def gt pd D_def)
  have later': "\<forall>k \<in> fst ` set d2'. ?f k \<noteq> ?f p"
  proof -
    have "fst ` set d2' = fst ` set d2"
      using k2 by (metis list.set_map)
    with later show ?thesis by simp
  qed
  have look: "map_of D (?f p) = Some v'"
    unfolding D_def d' by (rule mapped_property_lookup [OF later'])
  have absent: "map_of D (u # us) = None" if "u \<in> set ''ABCDEFGHIJKLMNOPQRSTUVWXYZ''" for u us
    unfolding D_def
    by (rule mapped_property_absent) (use map_property_name_not_upper [OF that] in blast)
  define D' where "D' =
      (if cf_type \<in> set [''AWS::EC2::SecurityGroupIngress'', ''AWS::EC2::SecurityGroupEgress'']
       then dict_set D ''type'' (PStr (if is_substring ''Ingress'' cf_type then ''ingress'' else ''egress''))
       else D)"
  have tr: "apply_resource_transformations cf_type (PDict D) logical_id = Inr (PDict D')"
    unfolding D'_def
    by (rule transformations_lower_keys) (simp_all add: absent)
  have look': "map_of D' (?f p) = Some v'"
    using look sg by (auto simp: D'_def map_of_dict_set)
  have nc: "\<not> is_call (PDict D')"
    using is_call_lookup [OF _ look'] map_property_name_not_upper [of _ terraform_type p] by blast
  have final: "value_at (PDict D') (Key (?f p) # path) = Some (PStr marker)"
    using nc look' atv by simp
  have cr: "convert_resource eng logical_id (PDict cfg) ?h ?c =
      (Inr (Some \<lparr>c_resources = [(terraform_type, PDict [(?name, PDict D')])],
                  c_import_commands =
                    (case generate_import_command terraform_type ?name cf_type of
                       None \<Rightarrow> [] | Some import_command \<Rightarrow> [import_command]),
                  c_warnings = []\<rparr>), lp)"
    using ne nostack hf
    by (simp add: convert_resource_def py_get_def ty props truthy_def gt pv mp tr py_str_def
          lift_def rbind_def ret_def Let_def)
  obtain ra where loop: "convert_resources eng ?h ?c (Resources t) (before_resources t vars, [], ?log0) =
      (ra, [(terraform_type, PDict [(?name, PDict D')])], ?log0 @ lp)"
    and wa: "warnings ra = []"
    by (simp add: res cr resource_converted_def dict_update_def warnings_before_resources)
  have "map_of (terraform_config (fst (convert_template eng t))) ''resource'' =
          Some (PDict [(terraform_type, PDict [(?name, PDict D')])])
        \<and> warnings (fst (convert_template eng t)) = []"
    unfolding convert_template_def vars
    by (cases "outputs_phase t (ra\<lparr>terraform_config :=
                dict_set (terraform_config ra) ''resource''
                  (PDict [(terraform_type, PDict [(?name, PDict D')])])\<rparr>)";
        cases "fst (outputs_phase t (ra\<lparr>terraform_config :=
                dict_set (terraform_config ra) ''resource''
                  (PDict [(terraform_type, PDict [(?name, PDict D')])])\<rparr>))")
       (simp_all add: loop Let_def template_failed_def map_of_dict_set wa)
  with final show ?thesis unfolding marker_def by blast
qed

theorem undeclared_ref_marker_witness:
  "\<exists>props.
     map_of (terraform_config (fst (convert_template \<lparr>preserve_names = True, handle_functions = True\<rparr>
     \<lparr>Parameters = [], Mappings = [], Conditions = [],
      Resources = [(''MyInstance'', PDict [(''Type'', PStr ''AWS::EC2::Instance''),
        (''Properties'', PDict [(''ImageId'', PStr ''ami-1''), (''Tags'', PList [PDict [(''Key'', PStr ''Name''), (''Value'', PDict [(''Ref'', PStr ''Missing'')])]]), (''InstanceType'', PStr ''t3.micro'')])])],
      Outputs = []\<rparr>))) ''resource'' =
       Some (PDict [(''aws_instance'', PDict [(''myinstance'', PDict props)])])
   \<and> value_at (PDict props) [Key ''tags'', Index 0, Key ''Value''] =
       Some (PStr ''# TODO: Resolve reference to Missing'')
   \<and> warnings (fst (convert_template \<lparr>preserve_names = True, handle_functions = True\<rparr>
     \<lparr>Parameters = [], Mappings = [], Conditions = [],
      Resources = [(''MyInstance'', PDict [(''Type'', PStr ''AWS::EC2::Instance''),
        (''Properties'', PDict [(''ImageId'', PStr ''ami-1''), (''Tags'', PList [PDict [(''Key'', PStr ''Name''), (''Value'', PDict [(''Ref'', PStr ''Missing'')])]]), (''InstanceType'', PStr ''t3.micro'')])])],
      Outputs = []\<rparr>)) = []"
proof -
  let ?tags = "PList [PDict [(''Key'', PStr ''Name''), (''Value'', PDict [(''Ref'', PStr ''Missing'')])]]"
  let ?d1 = "[(''ImageId'', PStr ''ami-1'')]"
  let ?d2 = "[(''InstanceType'', PStr ''t3.micro'')]"
  let ?cfg = "[(''Type'', PStr ''AWS::EC2::Instance''),
        (''Properties'', PDict [(''ImageId'', PStr ''ami-1''), (''Tags'', PList [PDict [(''Key'', PStr ''Name''), (''Value'', PDict [(''Ref'', PStr ''Missing'')])]]), (''InstanceType'', PStr ''t3.micro'')])]"
  let ?t = "\<lparr>Parameters = [], Mappings = [], Conditions = [],
      Resources = [(''MyInstance'', PDict [(''Type'', PStr ''AWS::EC2::Instance''),
        (''Properties'', PDict [(''ImageId'', PStr ''ami-1''), (''Tags'', PList [PDict [(''Key'', PStr ''Name''), (''Value'', PDict [(''Ref'', PStr ''Missing'')])]]), (''InstanceType'', PStr ''t3.micro'')])])],
      Outputs = []\<rparr>"
  let ?E = "\<lparr>preserve_names = True, handle_functions = True\<rparr>"
  have res: "Resources ?t = [(''MyInstance'', PDict ?cfg)]" by simp
  have ty: "map_of ?cfg ''Type'' = Some (PStr ''AWS::EC2::Instance'')" by simp
  have props: "map_of ?cfg ''Properties'' = Some (PDict (?d1 @ (''Tags'', ?tags) # ?d2))" by simp
  have data: "\<not> is_call (PDict (?d1 @ (''Tags'', ?tags) # ?d2))" by simp
  have q1: "terraform_property ''aws_instance'' ''Tags'' = ''tags''" by code_simp
  have q2: "terraform_property ''aws_instance'' ''InstanceType'' = ''instance_type''" by code_simp
  have later: "\<forall>k \<in> fst ` set ?d2.
      terraform_property ''aws_instance'' k \<noteq> terraform_property ''aws_instance'' ''Tags''"
    by (simp add: q1 q2)
  have at: "value_at ?tags [Index 0, Key ''Value''] = Some (PDict [(''Ref'', PStr ''Missing'')])"
    by simp
  have tt: "map_of RESOURCE_TYPE_MAPPING ''AWS::EC2::Instance'' = Some ''aws_instance''" by code_simp
  have nostack: "''AWS::EC2::Instance'' \<noteq> ''AWS::CloudFormation::Stack''" by simp
  have hf: "handle_functions ?E" by simp
  have n1: "\<not> dict_in ''Missing'' (Parameters ?t)" by (simp add: dict_in_def)
  have n2: "''Missing'' \<noteq> ''MyInstance''" by simp
  have n3: "map_of ref_pseudo_params ''Missing'' = None" by code_simp
  have vars: "variables_phase ?t = Inr []" by code_simp
  have ok: "fst (process_value (template_handler ?t) (template_context ?t)
               (PDict (?d1 @ (''Tags'', ?tags) # ?d2))) =
      Inr (PDict [(''ImageId'', PStr ''ami-1''),
                  (''Tags'', PList [PDict [(''Key'', PStr ''Name''),
                     (''Value'', PStr ''# TODO: Resolve reference to Missing'')]]),
                  (''InstanceType'', PStr ''t3.micro'')])"
    by code_simp
  have low: "lower ''MyInstance'' = ''myinstance''" by code_simp
  show ?thesis
    using undeclared_ref_marker [OF res ty props data later at tt nostack hf n1 n2 n3 vars ok]
    unfolding q1
    by (simp add: low)
qed

text \<open>
  A resource \<^verbatim>\<open>MyInstance\<close> with \<^verbatim>\<open>SubnetId: {Ref: Missing}\<close>: the property is the
  marker, and neither the result nor the log holds a warning. The marker is not in the
  result when a later property \<^verbatim>\<open>subnet_id\<close> takes its place, when the type has no
  mapping, when functions are not handled, when another property raises, when the
  parameters phase raises, or under the name \<^verbatim>\<open>type\<close> of a security group rule; and a
  nested stack records a warning of its own.
\<close>

theorem undeclared_ref_no_warning:
  "convert_template \<lparr>preserve_names = True, handle_functions = True\<rparr>
     \<lparr>Parameters = [], Mappings = [], Conditions = [],
      Resources = [(''MyInstance'', PDict [(''Type'', PStr ''AWS::EC2::Instance''),
        (''Properties'', PDict [(''SubnetId'', PDict [(''Ref'', PStr ''Missing'')])])])],
      Outputs = []\<rparr> =
   (\<lparr>terraform_config =
       [(''resource'',
         PDict [(''aws_instance'', PDict [(''myinstance'',
           PDict [(''subnet_id'', PStr ''# TODO: Resolve reference to Missing'')])])]),
        (''data'', generate_data_sources)],
      import_commands = [''terraform import aws_instance.myinstance PHYSICAL_ID''],
      variables = [], outputs = [], locals = [], warnings = [], errors = []\<rparr>,
    [(INFO, ''Converting CloudFormation template to Terraform''),
     (INFO, ''Template conversion completed: 1 resources converted'')])
   \<and> map_of (terraform_config (fst (convert_template \<lparr>preserve_names = True, handle_functions = True\<rparr>
     \<lparr>Parameters = [], Mappings = [], Conditions = [],
      Resources = [(''MyInstance'', PDict [(''Type'', PStr ''AWS::EC2::Instance''),
        (''Properties'', PDict [(''SubnetId'', PDict [(''Ref'', PStr ''Missing'')]), (''subnet_id'', PStr ''x'')])])],
      Outputs = []\<rparr>))) ''resource'' =
       Some (PDict [(''aws_instance'', PDict [(''myinstance'', PDict [(''subnet_id'', PStr ''x'')])])])
   \<and> map_of (terraform_config (fst (convert_template \<lparr>preserve_names = True, handle_functions = True\<rparr>
     \<lparr>Parameters = [], Mappings = [], Conditions = [],
      Resources = [(''MyThing'', PDict [(''Type'', PStr ''Custom::Thing''),
        (''Properties'', PDict [(''SubnetId'', PDict [(''Ref'', PStr ''Missing'')])])])],
      Outputs = []\<rparr>))) ''resource'' = Some (PDict [])
   \<and> map_of (terraform_config (fst (convert_template \<lparr>preserve_names = True, handle_functions = False\<rparr>
     \<lparr>Parameters = [], Mappings = [], Conditions = [],
      Resources = [(''MyInstance'', PDict [(''Type'', PStr ''AWS::EC2::Instance''),
        (''Properties'', PDict [(''SubnetId'', PDict [(''Ref'', PStr ''Missing'')])])])],
      Outputs = []\<rparr>))) ''resource'' =
       Some (PDict [(''aws_instance'', PDict [(''myinstance'',
               PDict [(''subnet_id'', PDict [(''Ref'', PStr ''Missing'')])])])])
   \<and> map_of (terraform_config (fst (convert_template \<lparr>preserve_names = True, handle_functions = True\<rparr>
     \<lparr>Parameters = [], Mappings = [], Conditions = [],
      Resources = [(''MyInstance'', PDict [(''Type'', PStr ''AWS::EC2::Instance''),
        (''Properties'', PDict [(''SubnetId'', PDict [(''Ref'', PStr ''Missing'')]), (''UserData'', PDict [(''Fn::Sub'', PList [PStr ''a'', PStr ''b''])])])])],
      Outputs = []\<rparr>))) ''resource'' = Some (PDict [])
   \<and> map_of (terraform_config (fst (convert_template \<lparr>preserve_names = True, handle_functions = True\<rparr>
     \<lparr>Parameters = [(''Env'', PDict [(''AllowedValues'', PList [PInt 1, PInt 2])])], Mappings = [], Conditions = [],
      Resources = [(''MyInstance'', PDict [(''Type'', PStr ''AWS::EC2::Instance''),
        (''Properties'', PDict [(''SubnetId'', PDict [(''Ref'', PStr ''Missing'')])])])],
      Outputs = []\<rparr>))) ''resource'' = None
   \<and> map_of (terraform_config (fst (convert_template \<lparr>preserve_names = True, handle_functions = True\<rparr>
     \<lparr>Parameters = [], Mappings = [], Conditions = [],
      Resources = [(''Rule'', PDict [(''Type'', PStr ''AWS::EC2::SecurityGroupIngress''),
        (''Properties'', PDict [(''Type'', PDict [(''Ref'', PStr ''Missing'')])])])],
      Outputs = []\<rparr>))) ''resource'' =
       Some (PDict [(''aws_security_group_rule'', PDict [(''rule'', PDict [(''type'', PStr ''ingress'')])])])
   \<and> warnings (fst (convert_template \<lparr>preserve_names = True, handle_functions = True\<rparr>
     \<lparr>Parameters = [], Mappings = [], Conditions = [],
      Resources = [(''Nested'', PDict [(''Type'', PStr ''AWS::CloudFormation::Stack''),
        (''Properties'', PDict [(''Parameters'', PDict [(''P'', PDict [(''Ref'', PStr ''Missing'')])])])])],
      Outputs = []\<rparr>)) = [''Nested stack Nested requires manual template conversion'']"
  by code_simp

section \<open>Properties of the import executor\<close>

lemma cwd_chdir: "directory_exists env d \<Longrightarrow> chdir env d w = (Inr (), w\<lparr>cwd := d\<rparr>)"
  by (simp add: chdir_def)




text \<open>
  Claim C6, at the batch of three commands whose second command fails twice and then
  succeeds, with two workers and at most two retries. The parallel executor runs every
  command once and never retries: the summary counts two successes and one failure, and
  the failing address has one result, with retry count 0. The sequential executor, on the
  same script, retries once and no more: the address has the results of retry counts 0 and
  1, both failures, and is counted as failed twice.
\<close>

theorem parallel_imports_never_retry:
  "fst (execute_import_script scenario_env scenario_manager ''import.sh'' initial_world) =
     Inr \<lparr>total_imports = 3, successful_imports = 2, failed_imports = 1,
          results =
            [\<lparr>resource_address = ''aws_vpc.a'', resource_id = ''vpc-1'', success = True,
               error_message = None, retry_count = 0\<rparr>,
             \<lparr>resource_address = ''aws_instance.b'', resource_id = ''i-2'', success = False,
               error_message = Some ''Error: resource not ready'', retry_count = 0\<rparr>,
             \<lparr>resource_address = ''aws_s3_bucket.c'', resource_id = ''logs'', success = True,
               error_message = None, retry_count = 0\<rparr>],
          summary_errors = []\<rparr>
   \<and> fst (execute_import_script scenario_env (scenario_manager\<lparr>parallel := False\<rparr>) ''import.sh''
          initial_world) =
     Inr \<lparr>total_imports = 3, successful_imports = 2, failed_imports = 2,
          results =
            [\<lparr>resource_address = ''aws_vpc.a'', resource_id = ''vpc-1'', success = True,
               error_message = None, retry_count = 0\<rparr>,
             \<lparr>resource_address = ''aws_instance.b'', resource_id = ''i-2'', success = False,
               error_message = Some ''Error: resource not ready'', retry_count = 0\<rparr>,
             \<lparr>resource_address = ''aws_instance.b'', resource_id = ''i-2'', success = False,
               error_message = Some ''Error: resource not ready'', retry_count = 1\<rparr>,
             \<lparr>resource_address = ''aws_s3_bucket.c'', resource_id = ''logs'', success = True,
               error_message = None, retry_count = 0\<rparr>],
          summary_errors = []\<rparr>"
  by code_simp

lemma executed_backup_state_files:
  "executed (snd (backup_state_files env m fs w)) = executed w"
  by (induction fs arbitrary: w) (auto simp: Let_def log_record_def split: option.splits)

lemma executed_create_state_backup:
  "executed (snd (create_state_backup env m w)) = executed w"
  by (cases "mkdir env (path_join (terraform_dir m) ''state_backups'')")
     (simp_all add: create_state_backup_def executed_backup_state_files del: backup_state_files.simps)

text \<open>
  Claim C7, as amended. With the backup enabled and the script present, an exception of
  \<^verbatim>\<open>_create_state_backup\<close> is the exception of \<^verbatim>\<open>execute_import_script\<close>: no summary
  is returned, and no command has been run.
\<close>

theorem backup_failure_aborts:
  assumes "path_exists env import_script" and "create_backup m"
    and "fst (create_state_backup env m
               (log_record INFO (''Executing import script: '' @ import_script) w)) = Inl e"
  shows "fst (execute_import_script env m import_script w) = Inl e
       \<and> executed (snd (execute_import_script env m import_script w)) = executed w"
proof -
  define w0 where "w0 = log_record INFO (''Executing import script: '' @ import_script) w"
  from assms(3) have "fst (create_state_backup env m w0) = Inl e"
    unfolding w0_def .
  then obtain w1 where b: "create_state_backup env m w0 = (Inl e, w1)"
    by (cases "create_state_backup env m w0") simp
  have "executed (snd (create_state_backup env m w0)) = executed w0"
    by (rule executed_create_state_backup)
  then have "executed w1 = executed w0" unfolding b by simp
  then have ex: "executed w1 = executed w" by (simp add: w0_def log_record_def)
  have "execute_import_script env m import_script w = (Inl e, w1)"
    unfolding execute_import_script_def Let_def w0_def [symmetric]
    using assms(1,2) by (simp add: b)
  with ex show ?thesis by simp
qed

theorem backup_failure_aborts_witness:
  "fst (execute_import_script failing_backup_env (scenario_manager\<lparr>create_backup := True\<rparr>)
          ''import.sh'' initial_world) = Inl (OSError ''[Errno 28] No space left on device'')
   \<and> executed (snd (execute_import_script failing_backup_env (scenario_manager\<lparr>create_backup := True\<rparr>)
          ''import.sh'' initial_world)) = []"
proof -
  have a: "path_exists failing_backup_env ''import.sh''" by code_simp
  have b: "create_backup (scenario_manager\<lparr>create_backup := True\<rparr>)" by simp
  have c: "fst (create_state_backup failing_backup_env (scenario_manager\<lparr>create_backup := True\<rparr>)
               (log_record INFO (''Executing import script: '' @ ''import.sh'') initial_world)) =
           Inl (OSError ''[Errno 28] No space left on device'')"
    by code_simp
  show ?thesis
    using backup_failure_aborts [OF a b c] by (simp add: initial_world_def)
qed

text \<open>
  When the copy of the state file fails, the call raises the exception of the copy; no
  command has been run and the log holds no warning.
\<close>

theorem backup_failure_not_a_warning:
  "execute_import_script failing_backup_env (scenario_manager\<lparr>create_backup := True\<rparr>)
     ''import.sh'' initial_world =
   (Inl (OSError ''[Errno 28] No space left on device''),
    \<lparr>cwd = ''/home/user'', executed = [], copied = [],
      logged = [(INFO, ''Executing import script: import.sh'')]\<rparr>)"
  by code_simp

end
